theory Spec2Isabelle
  imports Main "HOL-Library.Sublist" "HOL-Library.AList" "HOL-Library.Code_Target_Nat"
begin

chapter \<open>EasyReads backend: admin gate, book requests, book queries, chat fallback\<close>

text \<open>
  A shallow embedding of the Express handlers of the EasyReads backend
  (\<^verbatim>\<open>adminAuth.js\<close>, \<^verbatim>\<open>bookController.js\<close>, \<^verbatim>\<open>bookRequestController.js\<close>, the
  \<^verbatim>\<open>/book-requests\<close> router, \<^verbatim>\<open>BookRequestSchema.js\<close> and \<^verbatim>\<open>aiController.js\<close>).
  A handler is a function from the request (and the collection it works on) to the
  response it sends and the collection it leaves behind.
\<close>

section \<open>JavaScript strings\<close>

text \<open>
  A string is the sequence of its UTF-16 code units, as in ECMAScript; a code unit is
  a number below 65536. For an ASCII text, \<open>js ''abc''\<close> is the string of the code units
  of \<^verbatim>\<open>'abc'\<close>; the string literals of the source are written with it.
\<close>

type_synonym codeUnit = nat

type_synonym jstring = "codeUnit list"

definition js :: "string \<Rightarrow> jstring" where
  "js s = map of_char s"

text \<open>
  The white space of ECMAScript, which \<^verbatim>\<open>trim\<close>, \<^verbatim>\<open>parseInt\<close> and the class \<^verbatim>\<open>\s\<close> of a
  regular expression share: \<^verbatim>\<open>WhiteSpace\<close> is TAB, VT, FF, SP, NBSP, ZWNBSP (U+FEFF) and
  the code points of the Unicode category \<^verbatim>\<open>Zs\<close> (U+0020, U+00A0, U+1680, U+2000 to
  U+200A, U+202F, U+205F, U+3000); \<^verbatim>\<open>LineTerminator\<close> is LF, CR, U+2028 and U+2029.
  Each of them is one code unit.
\<close>

definition whiteSpace :: "codeUnit list" where
  "whiteSpace =
     [0x0009, 0x000B, 0x000C, 0x0020, 0x00A0, 0xFEFF, 0x1680,
      0x2000, 0x2001, 0x2002, 0x2003, 0x2004, 0x2005, 0x2006, 0x2007, 0x2008, 0x2009, 0x200A,
      0x202F, 0x205F, 0x3000]"

definition lineTerminator :: "codeUnit list" where
  "lineTerminator = [0x000A, 0x000D, 0x2028, 0x2029]"

definition isSpace :: "codeUnit \<Rightarrow> bool" where
  "isSpace c = (c \<in> set (whiteSpace @ lineTerminator))"

definition trim :: "jstring \<Rightarrow> jstring" where
  "trim s = rev (dropWhile isSpace (rev (dropWhile isSpace s)))"

text \<open>
  \<^verbatim>\<open>s.toLowerCase()\<close> maps a string by the case tables of the Unicode version the engine
  was built with (a capital letter beyond ASCII has a lower-case form, which may be an
  ASCII letter, as for U+212A, or two code points, as for U+0130; a capital sigma is
  mapped by its context). On a string of ASCII code units the result is the string
  with each of the letters \<open>A\<close> to \<open>Z\<close> replaced by its lower-case letter. The tables are
  not part of the sources: the value on every other string is given by a parameter
  \<open>U\<close>, of which nothing is assumed, so that what is proved holds whatever the tables
  are.
\<close>

type_synonym caseTables = "jstring \<Rightarrow> jstring"

definition isAscii :: "codeUnit \<Rightarrow> bool" where
  "isAscii c = (c < 0x80)"

definition toLowerChar :: "codeUnit \<Rightarrow> codeUnit" where
  "toLowerChar c = (if 0x41 \<le> c \<and> c \<le> 0x5A then c + 0x20 else c)"

definition toLowerCase :: "caseTables \<Rightarrow> jstring \<Rightarrow> jstring" where
  "toLowerCase U s = (if list_all isAscii s then map toLowerChar s else U s)"

text \<open>\<^verbatim>\<open>s.includes(sub)\<close>: \<open>sub\<close> occurs in \<open>s\<close> as a contiguous run.\<close>

fun includesStr :: "jstring \<Rightarrow> jstring \<Rightarrow> bool" where
  "includesStr [] sub = (sub = [])"
| "includesStr (c # cs) sub = (prefix sub (c # cs) \<or> includesStr cs sub)"

text \<open>
  \<^verbatim>\<open>s.split(sep)\<close> for a separator of one code unit (the comma is \<open>0x2C\<close>); the empty
  string splits into the list of the empty string.
\<close>

fun split :: "codeUnit \<Rightarrow> jstring \<Rightarrow> jstring list" where
  "split sep [] = [[]]"
| "split sep (c # cs) =
     (if c = sep then [] # split sep cs
      else (case split sep cs of [] \<Rightarrow> [[c]] | w # ws \<Rightarrow> (c # w) # ws))"

text \<open>Lines of a reply joined by the line feed \<open>0x0A\<close>, as \<^verbatim>\<open>\n\<close> in the source literals.\<close>

fun joinLines :: "jstring list \<Rightarrow> jstring" where
  "joinLines [] = []"
| "joinLines [l] = l"
| "joinLines (l # ls) = l @ 0x0A # joinLines ls"

section \<open>Numbers read from strings\<close>

text \<open>
  \<^verbatim>\<open>parseInt(s)\<close>: leading white space, an optional sign, an optional \<^verbatim>\<open>0x\<close> prefix
  (radix 16, otherwise 10), then the longest run of digits; \<open>None\<close> is \<^verbatim>\<open>NaN\<close>.
  Numbers are unbounded integers; the rounding of large doubles is not modelled.
\<close>

definition digitVal :: "codeUnit \<Rightarrow> nat option" where
  "digitVal c = map_of (zip (js ''0123456789abcdef'') [0..<16]) (toLowerChar c)"

definition isDigitIn :: "nat \<Rightarrow> codeUnit \<Rightarrow> bool" where
  "isDigitIn radix c = (case digitVal c of Some d \<Rightarrow> d < radix | None \<Rightarrow> False)"

definition digitsValue :: "nat \<Rightarrow> jstring \<Rightarrow> nat" where
  "digitsValue radix ds =
     foldl (\<lambda>a c. a * radix + (case digitVal c of Some d \<Rightarrow> d | None \<Rightarrow> 0)) 0 ds"

definition parseInt :: "jstring \<Rightarrow> int option" where
  "parseInt s =
     (let t = dropWhile isSpace s;
          neg = (take 1 t = (js ''-''));
          u = (if take 1 t = (js ''-'') \<or> take 1 t = (js ''+'') then drop 1 t else t);
          hex = (take 2 u = (js ''0x'') \<or> take 2 u = (js ''0X''));
          radix = (if hex then 16 else 10);
          w = (if hex then drop 2 u else u);
          ds = takeWhile (isDigitIn radix) w
      in if ds = [] then None
         else Some ((if neg then - 1 else 1) * int (digitsValue radix ds)))"

text \<open>\<^verbatim>\<open>Math.max\<close> and \<^verbatim>\<open>Math.min\<close> against a constant: \<^verbatim>\<open>NaN\<close> stays \<^verbatim>\<open>NaN\<close>.\<close>

definition mathMax :: "int \<Rightarrow> int option \<Rightarrow> int option" where
  "mathMax a x = map_option (max a) x"

definition mathMin :: "int \<Rightarrow> int option \<Rightarrow> int option" where
  "mathMin a x = map_option (min a) x"

section \<open>JSON values, requests and responses\<close>

text \<open>
  The values of request bodies, responses and stored documents. \<open>JNum\<close> holds an
  integer and \<open>JNaN\<close> the number \<^verbatim>\<open>NaN\<close>; \<open>JDate t\<close> is a \<^verbatim>\<open>Date\<close> of \<open>t\<close> milliseconds;
  \<open>JConv ParseFloat v\<close> and \<open>JConv NewDate v\<close> stand for the values \<^verbatim>\<open>parseFloat(v)\<close> and
  \<^verbatim>\<open>new Date(v)\<close>, which are kept symbolic. An object is an association list read
  with \<open>map_of\<close>.
\<close>

datatype conv = ParseFloat | NewDate

datatype json =
    JNull
  | JBool bool
  | JNum int
  | JNaN
  | JStr jstring
  | JDate int
  | JConv conv json
  | JArr "json list"
  | JObj "(jstring \<times> json) list"

type_synonym doc = "(jstring \<times> json) list"

text \<open>\<^verbatim>\<open>obj.k\<close> on a body: \<open>None\<close> is \<^verbatim>\<open>undefined\<close>.\<close>

definition field :: "json \<Rightarrow> jstring \<Rightarrow> json option" where
  "field b k = (case b of JObj fs \<Rightarrow> map_of fs k | _ \<Rightarrow> None)"

text \<open>Truthiness of a value that may be \<^verbatim>\<open>undefined\<close>.\<close>

fun truthy :: "json option \<Rightarrow> bool" where
  "truthy None = False"
| "truthy (Some JNull) = False"
| "truthy (Some (JBool b)) = b"
| "truthy (Some (JNum n)) = (n \<noteq> 0)"
| "truthy (Some JNaN) = False"
| "truthy (Some (JStr s)) = (s \<noteq> [])"
| "truthy (Some _) = True"

datatype error = TypeError | CastError | ValidationError | DuplicateKey | QueryError

text \<open>
  What a handler does with the response object: it sends a status and a JSON body
  (\<^verbatim>\<open>res.status(n).json(b)\<close>), or it hands an error to \<^verbatim>\<open>next\<close>.
\<close>

datatype result = Respond nat json | Next error

definition statusOf :: "result \<Rightarrow> nat option" where
  "statusOf r = (case r of Respond n _ \<Rightarrow> Some n | Next _ \<Rightarrow> None)"

text \<open>
  \<^verbatim>\<open>req.user\<close> is set by the token middleware (not part of these sources): the token's
  email, or \<^verbatim>\<open>undefined\<close>. Route parameters and query parameters are strings.
\<close>

record user =
  email :: "jstring option"

record req =
  user :: "user option"
  params :: "(jstring \<times> jstring) list"
  query :: "(jstring \<times> jstring) list"
  body :: json

record procEnv =
  VITE_ADMIN_EMAILS :: "jstring option"
  ADMIN_EMAILS :: "jstring option"
  OPENAI_API_KEY :: "jstring option"

text \<open>\<^verbatim>\<open>a || b\<close> on environment strings: the first one that is set and not empty.\<close>

definition orElse :: "jstring option \<Rightarrow> jstring \<Rightarrow> jstring" where
  "orElse a b = (case a of None \<Rightarrow> b | Some s \<Rightarrow> if s = [] then b else s)"

section \<open>Admin authorization (adminAuth.js)\<close>

definition adminEnv :: "procEnv \<Rightarrow> jstring" where
  "adminEnv env = orElse (VITE_ADMIN_EMAILS env) (orElse (ADMIN_EMAILS env) [])"

definition getAdminEmails :: "caseTables \<Rightarrow> procEnv \<Rightarrow> jstring list" where
  "getAdminEmails U env =
     (if adminEnv env = [] then []
      else filter (\<lambda>email. length email > 0)
             (map (\<lambda>email. toLowerCase U (trim email)) (split 0x2C (adminEnv env))))"

definition isAdminEmail :: "caseTables \<Rightarrow> procEnv \<Rightarrow> jstring option \<Rightarrow> bool" where
  "isAdminEmail U env mail =
     (case mail of
        None \<Rightarrow> False
      | Some e \<Rightarrow> if e = [] then False else toLowerCase U e \<in> set (getAdminEmails U env))"

text \<open>
  The admin set in the words of the specification: the environment value split on
  commas, each entry trimmed and lowercased, empty entries dropped.
\<close>

definition adminSet :: "caseTables \<Rightarrow> jstring \<Rightarrow> jstring set" where
  "adminSet U v = {e \<in> (\<lambda>x. toLowerCase U (trim x)) ` set (split 0x2C v). e \<noteq> []}"

text \<open>
  The middleware \<^verbatim>\<open>requireAdmin\<close>: \<open>Inl\<close> is the response it sends itself,
  \<open>Inr ()\<close> is the call of \<^verbatim>\<open>next()\<close>.
\<close>

definition requireAdmin :: "caseTables \<Rightarrow> procEnv \<Rightarrow> req \<Rightarrow> result + unit" where
  "requireAdmin U env r =
     (case user r of
        None \<Rightarrow> Inl (Respond 401 (JObj
          [((js ''success''), JBool False), ((js ''error''), JStr (js ''Unauthorized'')),
           ((js ''message''), JStr (js ''Authentication required. Please provide a valid token.''))]))
      | Some u \<Rightarrow>
          (case email u of
             None \<Rightarrow> Inl (Respond 401 (JObj
               [((js ''success''), JBool False), ((js ''error''), JStr (js ''Unauthorized'')),
                ((js ''message''), JStr (js ''User email not found in token.''))]))
           | Some e \<Rightarrow>
               if e = [] then Inl (Respond 401 (JObj
                 [((js ''success''), JBool False), ((js ''error''), JStr (js ''Unauthorized'')),
                  ((js ''message''), JStr (js ''User email not found in token.''))]))
               else if \<not> isAdminEmail U env (Some e) then Inl (Respond 403 (JObj
                 [((js ''success''), JBool False), ((js ''error''), JStr (js ''Forbidden'')),
                  ((js ''message''), JStr ((js ''Access denied. Only administrators can perform this action. Admin email: '') @ e))]))
               else Inr ()))"

text \<open>
  The check the controllers make themselves:
  \<^verbatim>\<open>!req.user || !isAdminEmail(req.user.email)\<close>.
\<close>

definition notAdmin :: "caseTables \<Rightarrow> procEnv \<Rightarrow> req \<Rightarrow> bool" where
  "notAdmin U env r = (case user r of None \<Rightarrow> True | Some u \<Rightarrow> \<not> isAdminEmail U env (email u))"

definition forbidden :: "jstring \<Rightarrow> result" where
  "forbidden msg = Respond 403 (JObj
     [((js ''success''), JBool False), ((js ''error''), JStr (js ''Forbidden'')), ((js ''message''), JStr msg)])"

definition failure :: "nat \<Rightarrow> jstring \<Rightarrow> result" where
  "failure code msg = Respond code (JObj [((js ''success''), JBool False), ((js ''message''), JStr msg)])"

section \<open>AI chat (aiController.js)\<close>

text \<open>The check mark of the feature reply is U+2705, one code unit.\<close>

definition checkMark :: jstring where
  "checkMark = [0x2705]"

definition fictionReply :: jstring where
  "fictionReply = (js ''You can find fiction books in the Books page under the Fiction category. You can also browse all books on the Home page or use the Books page to filter by category.'')"

definition scienceReply :: jstring where
  "scienceReply = (js ''Science books are available in the Books page under the Science category. Browse the Home page to see featured science books, or visit the Books page to explore all science titles.'')"

definition ebookReply :: jstring where
  "ebookReply = (js ''E-books are available on the Digital Books page and also shown on the Home page. You can preview e-books directly from Google Books. Just click the Preview button on any e-book card.'')"

definition audiobookReply :: jstring where
  "audiobookReply = (js ''Audiobooks are available on the Digital Books page and also shown on the Home page. You can listen to previews by clicking the Listen button on any audiobook card.'')"

definition findReply :: jstring where
  "findReply = joinLines
     [(js ''You can find books in several ways:''),
      (js ''1. Browse by category on the Books page''),
      (js ''2. Check recommendations on the Home page''),
      (js ''3. Search for specific titles''),
      (js ''4. View e-books and audiobooks on the Digital Books page'')]"

definition howReply :: jstring where
  "howReply = joinLines
     [(js ''EasyReads is easy to use! Here's how:''),
      (js ''1. Browse books by category on the Books page''),
      (js ''2. Check out recommendations on the Home page''),
      (js ''3. View e-books and audiobooks on Digital Books''),
      (js ''4. Request books that aren't available on the Requests page''),
      (js ''5. Use the search to find specific titles'')]"

definition recommendReply :: jstring where
  "recommendReply = joinLines
     [(js ''I can help you find great books! Here are some options:''),
      (js ''1. Check the Recommendations section on the Home page - it shows books based on categories you've visited''),
      (js ''2. Browse by category: Fiction, Science, Biography, Fantasy, History, Technology, or Romance''),
      (js ''3. Explore e-books and audiobooks on the Digital Books page''),
      [],
      (js ''What genre are you interested in?'')]"

definition categoryReply :: jstring where
  "categoryReply = joinLines
     [(js ''EasyReads offers books in 7 main categories:''),
      (js ''1. Fiction''), (js ''2. Science''), (js ''3. Biography''), (js ''4. Fantasy''),
      (js ''5. History''), (js ''6. Technology''), (js ''7. Romance''),
      [],
      (js ''You can browse all categories on the Books page or Home page.'')]"

definition requestReply :: jstring where
  "requestReply = (js ''If a book you want isn't available, you can request it! Go to the Requests page and fill out the book request form with the book name, author, and optional ISBN. Admins will review your request and notify you when it's available.'')"

definition featureReply :: jstring where
  "featureReply = joinLines
     [(js ''EasyReads offers:''),
      checkMark @ (js '' Browse books by category''),
      checkMark @ (js '' Personalized recommendations''),
      checkMark @ (js '' E-books and audiobooks''),
      checkMark @ (js '' Book previews''),
      checkMark @ (js '' Request unavailable books''),
      checkMark @ (js '' Admin dashboard for management''),
      [],
      (js ''Explore the Home page to see all features!'')]"

definition greetingReply :: jstring where
  "greetingReply = joinLines
     [(js ''Hello! I'm here to help you with EasyReads. You can ask me about:''),
      (js ''- Finding books''),
      (js ''- Book categories''),
      (js ''- E-books and audiobooks''),
      (js ''- How to use the platform''),
      (js ''- Book recommendations''),
      [],
      (js ''What would you like to know?'')]"

definition defaultReply :: jstring where
  "defaultReply = joinLines
     [(js ''I'm here to help you with EasyReads! You can ask me about:''),
      (js ''- Finding books by category''),
      (js ''- E-books and audiobooks''),
      (js ''- Book recommendations''),
      (js ''- How to use the platform''),
      (js ''- Requesting books''),
      [],
      (js ''What would you like to know?'')]"

definition generateAIResponse :: "caseTables \<Rightarrow> jstring \<Rightarrow> jstring" where
  "generateAIResponse U userMessage =
     (let lowerMessage = toLowerCase U userMessage in
      if includesStr lowerMessage (js ''find'') \<or> includesStr lowerMessage (js ''search'')
           \<or> includesStr lowerMessage (js ''book'') then
        (if includesStr lowerMessage (js ''fiction'') then fictionReply
         else if includesStr lowerMessage (js ''science'') then scienceReply
         else if includesStr lowerMessage (js ''ebook'') \<or> includesStr lowerMessage (js ''e-book'') then ebookReply
         else if includesStr lowerMessage (js ''audiobook'') then audiobookReply
         else findReply)
      else if includesStr lowerMessage (js ''how'')
           \<and> (includesStr lowerMessage (js ''use'') \<or> includesStr lowerMessage (js ''work'')) then howReply
      else if includesStr lowerMessage (js ''recommend'') \<or> includesStr lowerMessage (js ''suggest'') then
        recommendReply
      else if includesStr lowerMessage (js ''category'') \<or> includesStr lowerMessage (js ''categories'') then
        categoryReply
      else if includesStr lowerMessage (js ''request'') \<or> includesStr lowerMessage (js ''not available'') then
        requestReply
      else if includesStr lowerMessage (js ''feature'') \<or> includesStr lowerMessage (js ''what can'') then
        featureReply
      else if includesStr lowerMessage (js ''hello'') \<or> includesStr lowerMessage (js ''hi'')
           \<or> includesStr lowerMessage (js ''hey'') then greetingReply
      else defaultReply)"

text \<open>The replies of the table, and whether a message mentions one of a list of keywords.\<close>

definition cannedReplies :: "jstring list" where
  "cannedReplies =
     [fictionReply, scienceReply, ebookReply, audiobookReply, findReply, howReply,
      recommendReply, categoryReply, requestReply, featureReply, greetingReply, defaultReply]"

definition mentions :: "caseTables \<Rightarrow> jstring \<Rightarrow> jstring list \<Rightarrow> bool" where
  "mentions U msg ks = list_ex (includesStr (toLowerCase U msg)) ks"

text \<open>
  The module creates the client once, when the key is set and the constructor does not
  throw (\<open>ctorOk\<close>).
\<close>

definition initOpenAI :: "procEnv \<Rightarrow> bool \<Rightarrow> bool" where
  "initOpenAI env ctorOk = (orElse (OPENAI_API_KEY env) [] \<noteq> [] \<and> ctorOk)"

text \<open>
  \<open>chatWithAI env openai llm r\<close>: \<open>openai\<close> tells whether the client exists, \<open>llm\<close> is the
  external completion service (\<open>None\<close> when the call fails). The second component
  lists the messages sent to the service.
\<close>

definition chatWithAI ::
  "caseTables \<Rightarrow> procEnv \<Rightarrow> bool \<Rightarrow> (jstring \<Rightarrow> jstring option) \<Rightarrow> req \<Rightarrow> result \<times> jstring list" where
  "chatWithAI U env openai llm r =
     (case field (body r) (js ''message'') of
        Some (JStr message) \<Rightarrow>
          if message = [] \<or> length (trim message) = 0 then
            (Respond 400 (JObj [((js ''success''), JBool False),
               ((js ''error''), JStr (js ''Message is required and must be a non-empty jstring''))]), [])
          else if \<not> openai \<or> orElse (OPENAI_API_KEY env) [] = [] then
            (Respond 200 (JObj [((js ''success''), JBool True),
               ((js ''response''), JStr (generateAIResponse U (trim message)))]), [])
          else
            (case llm (trim message) of
               Some content \<Rightarrow>
                 (Respond 200 (JObj [((js ''success''), JBool True), ((js ''response''), JStr content)]),
                  [trim message])
             | None \<Rightarrow>
                 (Respond 200 (JObj [((js ''success''), JBool True),
                    ((js ''response''), JStr (generateAIResponse U (trim message)))]), [trim message]))
      | _ \<Rightarrow>
          (Respond 400 (JObj [((js ''success''), JBool False),
             ((js ''error''), JStr (js ''Message is required and must be a non-empty jstring''))]), []))"

section \<open>Pagination of the list endpoints (bookController.js, bookRequestController.js)\<close>

definition queryParam :: "req \<Rightarrow> jstring \<Rightarrow> jstring option" where
  "queryParam r k = map_of (query r) k"

text \<open>
  \<^verbatim>\<open>const { page = 1 } = req.query; parseInt(page)\<close>: the default stands in for a
  parameter that is absent.
\<close>

definition parseIntOr :: "int \<Rightarrow> jstring option \<Rightarrow> int option" where
  "parseIntOr d v = (case v of None \<Rightarrow> Some d | Some s \<Rightarrow> parseInt s)"

record paging =
  pageNum :: "int option"
  limitNum :: "int option"
  skip :: "int option"

text \<open>
  The three lines shared by the endpoints that take \<^verbatim>\<open>page\<close> and \<^verbatim>\<open>limit\<close>:
  \<^verbatim>\<open>pageNum = Math.max(1, parseInt(page))\<close>,
  \<^verbatim>\<open>limitNum = Math.min(100, Math.max(1, parseInt(limit)))\<close>,
  \<^verbatim>\<open>skip = (pageNum - 1) * limitNum\<close>.
\<close>

definition clampedPaging :: "req \<Rightarrow> paging" where
  "clampedPaging r =
     (let pageNum = mathMax 1 (parseIntOr 1 (queryParam r (js ''page'')));
          limitNum = mathMin 100 (mathMax 1 (parseIntOr 10 (queryParam r (js ''limit''))));
          skip = (case (pageNum, limitNum) of
                    (Some p, Some l) \<Rightarrow> Some ((p - 1) * l)
                  | _ \<Rightarrow> None)
      in \<lparr>pageNum = pageNum, limitNum = limitNum, skip = skip\<rparr>)"

datatype listEndpoint =
    GetAllBooks | GetBooksByGenre | GetTrendingBooks | GetFeaturedBooks | GetAvailableBooks
  | GetBooksByAuthor | GetBooksByRating | GetBooksByPriceRange | GetBooksByYear | SearchBooks
  | GetBookRequests | GetUserRequests | GetPendingRequests | GetPopularRequests

text \<open>
  The number each list endpoint hands to \<^verbatim>\<open>.limit(...)\<close> (for \<open>GetPopularRequests\<close>, to
  the model's \<^verbatim>\<open>getPopularRequests\<close>): \<^verbatim>\<open>searchBooks\<close> and \<^verbatim>\<open>getPopularRequests\<close> pass
  \<^verbatim>\<open>parseInt(limit)\<close> as it is.
\<close>

fun limitArg :: "listEndpoint \<Rightarrow> req \<Rightarrow> int option" where
  "limitArg SearchBooks r = parseIntOr 20 (queryParam r (js ''limit''))"
| "limitArg GetPopularRequests r = parseIntOr 10 (queryParam r (js ''limit''))"
| "limitArg _ r = limitNum (clampedPaging r)"

text \<open>The page number of the endpoints that read \<^verbatim>\<open>page\<close>; the others have none.\<close>

fun pageArg :: "listEndpoint \<Rightarrow> req \<Rightarrow> int option" where
  "pageArg SearchBooks r = None"
| "pageArg GetPopularRequests r = None"
| "pageArg GetTrendingBooks r = None"
| "pageArg GetFeaturedBooks r = None"
| "pageArg _ r = pageNum (clampedPaging r)"

text \<open>
  \<^verbatim>\<open>searchBooks\<close> up to the query it issues: the pattern \<^verbatim>\<open>q\<close> matched against name,
  author and description, and the limit.
\<close>

definition searchBooks :: "req \<Rightarrow> result + jstring \<times> int option" where
  "searchBooks r =
     (case queryParam r (js ''q'') of
        None \<Rightarrow> Inl (failure 400 (js ''Search query is required''))
      | Some q \<Rightarrow>
          if q = [] \<or> trim q = [] then Inl (failure 400 (js ''Search query is required''))
          else Inr (q, limitArg SearchBooks r))"

section \<open>The email pattern\<close>

text \<open>
  Regular expressions with character classes, matched by derivatives. The pattern of
  \<^verbatim>\<open>createBookRequest\<close> is anchored at both ends and has no flags, so
  \<^verbatim>\<open>emailRegex.test(s)\<close> holds exactly when the whole of \<open>s\<close> is in its language.
\<close>

datatype rexp = Zero | One | Sym jstring | Alt rexp rexp | Seq rexp rexp | Star rexp

fun nullable :: "rexp \<Rightarrow> bool" where
  "nullable Zero = False"
| "nullable One = True"
| "nullable (Sym cs) = False"
| "nullable (Alt r s) = (nullable r \<or> nullable s)"
| "nullable (Seq r s) = (nullable r \<and> nullable s)"
| "nullable (Star r) = True"

fun alt :: "rexp \<Rightarrow> rexp \<Rightarrow> rexp" where
  "alt Zero s = s"
| "alt r Zero = r"
| "alt r s = Alt r s"

fun seq :: "rexp \<Rightarrow> rexp \<Rightarrow> rexp" where
  "seq Zero s = Zero"
| "seq r Zero = Zero"
| "seq One s = s"
| "seq r s = Seq r s"

fun deriv :: "codeUnit \<Rightarrow> rexp \<Rightarrow> rexp" where
  "deriv c Zero = Zero"
| "deriv c One = Zero"
| "deriv c (Sym cs) = (if c \<in> set cs then One else Zero)"
| "deriv c (Alt r s) = alt (deriv c r) (deriv c s)"
| "deriv c (Seq r s) =
     (if nullable r then alt (seq (deriv c r) s) (deriv c s) else seq (deriv c r) s)"
| "deriv c (Star r) = seq (deriv c r) (Star r)"

definition matches :: "rexp \<Rightarrow> jstring \<Rightarrow> bool" where
  "matches r s = nullable (foldl (\<lambda>q c. deriv c q) r s)"

definition plus :: "rexp \<Rightarrow> rexp" where
  "plus r = Seq r (Star r)"

definition opt :: "rexp \<Rightarrow> rexp" where
  "opt r = Alt r One"

text \<open>\<^verbatim>\<open>\w\<close> is \<^verbatim>\<open>[A-Za-z0-9_]\<close>.\<close>

definition wordChar :: rexp where
  "wordChar = Sym (js ''abcdefghijklmnopqrstuvwxyzABCDEFGHIJKLMNOPQRSTUVWXYZ0123456789_'')"

text \<open>\<^verbatim>\<open>/^\w+([\.-]?\w+)*@\w+([\.-]?\w+)*(\.\w{2,3})+$/\<close>\<close>

definition emailRegex :: rexp where
  "emailRegex =
     Seq (plus wordChar)
    (Seq (Star (Seq (opt (Sym (js ''.-''))) (plus wordChar)))
    (Seq (Sym (js ''@''))
    (Seq (plus wordChar)
    (Seq (Star (Seq (opt (Sym (js ''.-''))) (plus wordChar)))
         (plus (Seq (Sym (js ''.'')) (Seq wordChar (Seq wordChar (opt wordChar)))))))))"

text \<open>\<^verbatim>\<open>/^[0-9a-fA-F]{24}$/\<close>, the format of an ObjectId.\<close>

definition validObjectId :: "jstring \<Rightarrow> bool" where
  "validObjectId s = (length s = 24 \<and> list_all (\<lambda>c. c \<in> set (js ''0123456789abcdefABCDEF'')) s)"

section \<open>Conversions of JSON values\<close>

text \<open>Decimal digits start at \<open>0x30\<close>; the minus sign is \<open>0x2D\<close>.\<close>

function showNat :: "nat \<Rightarrow> jstring" where
  "showNat n = (if n < 10 then [0x30 + n] else showNat (n div 10) @ [0x30 + n mod 10])"
  by pat_completeness auto
termination
  by (relation "measure id") auto

definition showInt :: "int \<Rightarrow> jstring" where
  "showInt i = (if i < 0 then 0x2D # showNat (nat (- i)) else showNat (nat i))"

fun joinWith :: "codeUnit \<Rightarrow> jstring list \<Rightarrow> jstring" where
  "joinWith c [] = []"
| "joinWith c [x] = x"
| "joinWith c (x # xs) = x @ c # joinWith c xs"

text \<open>
  \<^verbatim>\<open>String(v)\<close> on the values a JSON body holds; an array joins its elements with
  commas, \<^verbatim>\<open>null\<close> elements as empty strings. Dates and the symbolic conversions
  do not occur in bodies and are given the empty string.
\<close>

fun toStringJ :: "json \<Rightarrow> jstring" where
  "toStringJ JNull = (js ''null'')"
| "toStringJ (JBool b) = (if b then (js ''true'') else (js ''false''))"
| "toStringJ (JNum n) = showInt n"
| "toStringJ JNaN = (js ''NaN'')"
| "toStringJ (JStr s) = s"
| "toStringJ (JDate t) = []"
| "toStringJ (JConv c v) = []"
| "toStringJ (JArr xs) = joinWith 0x2C (map (\<lambda>x. if x = JNull then [] else toStringJ x) xs)"
| "toStringJ (JObj fs) = (js ''[object Object]'')"

definition parseIntJ :: "json \<Rightarrow> json" where
  "parseIntJ v = (case parseInt (toStringJ v) of Some n \<Rightarrow> JNum n | None \<Rightarrow> JNaN)"

text \<open>
  A value that the source trims: falsy (\<open>Absent\<close>), a string (\<open>Text\<close>), or a truthy
  value without a \<^verbatim>\<open>trim\<close> method, on which the call throws a \<^verbatim>\<open>TypeError\<close>.
\<close>

datatype textual = Absent | Text jstring | NotText

definition textOf :: "json option \<Rightarrow> textual" where
  "textOf v =
     (if \<not> truthy v then Absent
      else (case v of Some (JStr s) \<Rightarrow> Text s | _ \<Rightarrow> NotText))"

section \<open>Documents, schemas and the model operations of the ODM\<close>

text \<open>
  A collection lists its documents in insertion order, each under its ObjectId; an
  ObjectId is written as 24 hexadecimal digits, in lower case. A document is the
  association list of its fields, without \<^verbatim>\<open>_id\<close> and \<^verbatim>\<open>__v\<close>.
\<close>

type_synonym collection = "(jstring \<times> doc) list"

definition oid :: "jstring \<Rightarrow> jstring" where
  "oid s = map toLowerChar s"

definition docJson :: "jstring \<times> doc \<Rightarrow> json" where
  "docJson e = JObj (((js ''_id''), JStr (fst e)) # snd e)"

text \<open>
  The handlers delegate every read and write to the models that Mongoose builds from
  a schema. What the model of a schema needs: the declared paths (with the two paths
  that \<^verbatim>\<open>timestamps: true\<close> adds), the cast of a value at a path (\<open>None\<close> is a cast
  error), the defaults of a new document at a given time, the \<^verbatim>\<open>required\<close>, \<^verbatim>\<open>enum\<close>
  and \<^verbatim>\<open>unique\<close> options, and the \<^verbatim>\<open>timestamps\<close> option.

  The behaviour of the library that the operations below follow:
  \<^item> a schema is strict unless it says otherwise (\<^verbatim>\<open>BookRequestSchema.js\<close> does not): a
    field that is not a declared path is dropped from the object given to the
    constructor, is not part of the document when a handler assigns it
    (\<^verbatim>\<open>doc.field = v\<close>), and is dropped from an update, under \<^verbatim>\<open>$inc\<close> as well;
  \<^item> \<^verbatim>\<open>save()\<close> validates the document (\<^verbatim>\<open>required\<close>, \<^verbatim>\<open>enum\<close>) and writes nothing when a
    validator fails; \<^verbatim>\<open>findByIdAndUpdate\<close> validates the paths it sets when called with
    \<^verbatim>\<open>runValidators\<close>;
  \<^item> with \<^verbatim>\<open>timestamps: true\<close>, a save that changes a path and every update stamp
    \<^verbatim>\<open>updatedAt\<close>;
  \<^item> a field of an update whose value is \<^verbatim>\<open>undefined\<close> is left out of it.
\<close>

record schema =
  paths :: "jstring list"
  castAt :: "jstring \<Rightarrow> json \<Rightarrow> json option"
  defaultsAt :: "int \<Rightarrow> doc"
  requiredPaths :: "jstring list"
  enums :: "(jstring \<times> jstring list) list"
  uniquePaths :: "jstring list"
  timestamps :: bool

text \<open>The casts of the schema types \<^verbatim>\<open>String\<close> and \<^verbatim>\<open>Date\<close>.\<close>

fun castString :: "json \<Rightarrow> json option" where
  "castString JNull = Some JNull"
| "castString (JStr s) = Some (JStr s)"
| "castString (JNum n) = Some (JStr (showInt n))"
| "castString (JBool b) = Some (JStr (if b then (js ''true'') else (js ''false'')))"
| "castString JNaN = Some (JStr (js ''NaN''))"
| "castString _ = None"

fun castDate :: "json \<Rightarrow> json option" where
  "castDate JNull = Some JNull"
| "castDate (JDate t) = Some (JDate t)"
| "castDate (JNum n) = Some (JDate n)"
| "castDate (JStr s) = (if s = [] then Some JNull else Some (JConv NewDate (JStr s)))"
| "castDate (JConv NewDate v) = Some (JConv NewDate v)"
| "castDate _ = None"

text \<open>
  \<^verbatim>\<open>BookRequestSchema.js\<close>: \<^verbatim>\<open>bookName\<close>, \<^verbatim>\<open>author\<close>, \<^verbatim>\<open>requestedBy\<close> and
  \<^verbatim>\<open>requestedByUid\<close> are required strings, \<^verbatim>\<open>ISBN\<close> and \<^verbatim>\<open>adminNotes\<close> optional strings,
  \<^verbatim>\<open>status\<close> is one of \<^verbatim>\<open>pending\<close>, \<^verbatim>\<open>approved\<close>, \<^verbatim>\<open>rejected\<close> with default \<^verbatim>\<open>pending\<close>,
  \<^verbatim>\<open>requestedAt\<close> and \<^verbatim>\<open>updatedAt\<close> are dates with default \<^verbatim>\<open>Date.now\<close>, and the schema
  option is \<^verbatim>\<open>{ timestamps: true }\<close>.
\<close>

definition bookRequestSchema :: schema where
  "bookRequestSchema =
     \<lparr>paths = [(js ''bookName''), (js ''author''), (js ''ISBN''), (js ''requestedBy''), (js ''requestedByUid''),
               (js ''status''), (js ''adminNotes''), (js ''requestedAt''), (js ''updatedAt''), (js ''createdAt'')],
      castAt = (\<lambda>p. if p \<in> set [(js ''requestedAt''), (js ''updatedAt''), (js ''createdAt'')]
                     then castDate else castString),
      defaultsAt = (\<lambda>now. [((js ''status''), JStr (js ''pending'')), ((js ''requestedAt''), JDate now),
                            ((js ''updatedAt''), JDate now)]),
      requiredPaths = [(js ''bookName''), (js ''author''), (js ''requestedBy''), (js ''requestedByUid'')],
      enums = [((js ''status''), [(js ''pending''), (js ''approved''), (js ''rejected'')])],
      uniquePaths = [],
      timestamps = True\<rparr>"

text \<open>
  \<^verbatim>\<open>new Model(obj)\<close>: the declared paths in schema order, each with the cast of the given
  value or, when none is given, with its default.
\<close>

fun buildDoc :: "schema \<Rightarrow> int \<Rightarrow> doc \<Rightarrow> jstring list \<Rightarrow> doc option" where
  "buildDoc S now obj [] = Some []"
| "buildDoc S now obj (p # ps) =
     (case map_of obj p of
        Some v \<Rightarrow>
          (case castAt S p v of
             None \<Rightarrow> None
           | Some w \<Rightarrow> map_option ((#) (p, w)) (buildDoc S now obj ps))
      | None \<Rightarrow>
          (case map_of (defaultsAt S now) p of
             Some d \<Rightarrow> map_option ((#) (p, d)) (buildDoc S now obj ps)
           | None \<Rightarrow> buildDoc S now obj ps))"

text \<open>
  The timestamps of a new document: \<^verbatim>\<open>createdAt\<close> is set unless the document brings
  one, and \<^verbatim>\<open>updatedAt\<close> takes the value of \<^verbatim>\<open>createdAt\<close>.
\<close>

definition stampNew :: "schema \<Rightarrow> int \<Rightarrow> doc \<Rightarrow> doc" where
  "stampNew S now d =
     (if timestamps S then
        (let c = (case map_of d (js ''createdAt'') of
                    Some v \<Rightarrow> if v = JNull then JDate now else v
                  | None \<Rightarrow> JDate now)
         in AList.update (js ''updatedAt'') c (AList.update (js ''createdAt'') c d))
      else d)"

text \<open>The validators: \<^verbatim>\<open>required\<close> (an empty string does not count) and \<^verbatim>\<open>enum\<close>.\<close>

fun requiredOk :: "json option \<Rightarrow> bool" where
  "requiredOk None = False"
| "requiredOk (Some JNull) = False"
| "requiredOk (Some (JStr s)) = (s \<noteq> [])"
| "requiredOk (Some _) = True"

fun enumOk :: "jstring list \<Rightarrow> json option \<Rightarrow> bool" where
  "enumOk vs None = True"
| "enumOk vs (Some (JStr s)) = (s \<in> set vs)"
| "enumOk vs (Some _) = False"

definition validate :: "schema \<Rightarrow> doc \<Rightarrow> bool" where
  "validate S d =
     (list_all (\<lambda>p. requiredOk (map_of d p)) (requiredPaths S)
      \<and> list_all (\<lambda>(p, vs). enumOk vs (map_of d p)) (enums S))"

text \<open>A unique index: no other document holds the same value at the path.\<close>

definition uniqueOk :: "jstring list \<Rightarrow> jstring \<Rightarrow> doc \<Rightarrow> collection \<Rightarrow> bool" where
  "uniqueOk ps self d coll =
     list_all (\<lambda>p. list_all (\<lambda>(k, e). k = self \<or> map_of e p \<noteq> map_of d p) coll) ps"

text \<open>
  \<^verbatim>\<open>new Model(obj).save()\<close> with the ObjectId \<open>newId\<close> the driver generates: the document
  is validated and, if it is accepted, appended.
\<close>

definition create :: "schema \<Rightarrow> int \<Rightarrow> jstring \<Rightarrow> doc \<Rightarrow> collection \<Rightarrow> error + (jstring \<times> doc) \<times> collection" where
  "create S now newId obj coll =
     (case buildDoc S now obj (paths S) of
        None \<Rightarrow> Inl ValidationError
      | Some d0 \<Rightarrow>
          (let d = stampNew S now d0 in
           if \<not> validate S d then Inl ValidationError
           else if \<not> uniqueOk (uniquePaths S) (oid newId) d coll then Inl DuplicateKey
           else Inr ((oid newId, d), coll @ [(oid newId, d)])))"

text \<open>\<^verbatim>\<open>Model.findById(id)\<close>: an id that is no ObjectId is a cast error.\<close>

definition findById :: "collection \<Rightarrow> jstring \<Rightarrow> error + doc option" where
  "findById coll i = (if validObjectId i then Inr (map_of coll (oid i)) else Inl CastError)"

text \<open>
  Assignments to a loaded document followed by \<^verbatim>\<open>doc.save()\<close>: an assignment to a path
  the schema does not declare is not part of the document; the whole document is
  validated; if a path has changed, \<^verbatim>\<open>updatedAt\<close> is stamped and the document written.
\<close>

fun assignAll :: "schema \<Rightarrow> (jstring \<times> json) list \<Rightarrow> doc \<Rightarrow> doc option" where
  "assignAll S [] d = Some d"
| "assignAll S ((k, v) # as) d =
     (if k \<in> set (paths S) then
        (case castAt S k v of
           None \<Rightarrow> None
         | Some w \<Rightarrow> assignAll S as (AList.update k w d))
      else assignAll S as d)"

definition save :: "schema \<Rightarrow> int \<Rightarrow> jstring \<Rightarrow> doc \<Rightarrow> (jstring \<times> json) list \<Rightarrow> collection \<Rightarrow> error + doc \<times> collection" where
  "save S now key d assigns coll =
     (case assignAll S assigns d of
        None \<Rightarrow> Inl ValidationError
      | Some d1 \<Rightarrow>
          if \<not> validate S d1 then Inl ValidationError
          else if d1 = d then Inr (d, coll)
          else (let d2 = (if timestamps S then AList.update (js ''updatedAt'') (JDate now) d1 else d1)
                in Inr (d2, AList.update key d2 coll)))"

text \<open>
  \<^verbatim>\<open>Model.findByIdAndUpdate(id, update, { new: true, runValidators })\<close>: fields that are
  \<^verbatim>\<open>undefined\<close> (\<open>None\<close>) are left out, \<^verbatim>\<open>updatedAt\<close> is added when the schema has
  timestamps and the update does not set it, undeclared paths are dropped, the values
  are cast, the update validators check the paths that are set, and then the document
  is looked up, changed and returned (\<open>None\<close> when there is none).
\<close>

record updateSpec =
  setFields :: "(jstring \<times> json option) list"
  incFields :: "(jstring \<times> int) list"

fun castFields :: "schema \<Rightarrow> doc \<Rightarrow> doc option" where
  "castFields S [] = Some []"
| "castFields S ((k, v) # fs) =
     (case castAt S k v of
        None \<Rightarrow> None
      | Some w \<Rightarrow> map_option ((#) (k, w)) (castFields S fs))"

definition validateUpdate :: "schema \<Rightarrow> doc \<Rightarrow> bool" where
  "validateUpdate S sets =
     list_all (\<lambda>(k, v). (k \<in> set (requiredPaths S) \<longrightarrow> requiredOk (Some v))
                       \<and> (case map_of (enums S) k of None \<Rightarrow> True | Some vs \<Rightarrow> enumOk vs (Some v)))
       sets"

fun applySets :: "doc \<Rightarrow> doc \<Rightarrow> doc" where
  "applySets [] d = d"
| "applySets ((k, v) # fs) d = applySets fs (AList.update k v d)"

fun applyIncs :: "(jstring \<times> int) list \<Rightarrow> doc \<Rightarrow> doc option" where
  "applyIncs [] d = Some d"
| "applyIncs ((k, n) # fs) d =
     (case map_of d k of
        None \<Rightarrow> applyIncs fs (AList.update k (JNum n) d)
      | Some (JNum m) \<Rightarrow> applyIncs fs (AList.update k (JNum (m + n)) d)
      | Some _ \<Rightarrow> None)"

definition findByIdAndUpdate :: "schema \<Rightarrow> int \<Rightarrow> bool \<Rightarrow> jstring \<Rightarrow> updateSpec \<Rightarrow> collection \<Rightarrow> error + doc option \<times> collection" where
  "findByIdAndUpdate S now runValidators i u coll =
     (if \<not> validObjectId i then Inl CastError
      else
        (let sets0 = concat (map (\<lambda>(k, v). case v of None \<Rightarrow> [] | Some w \<Rightarrow> [(k, w)]) (setFields u));
             sets1 = (if timestamps S \<and> map_of sets0 (js ''updatedAt'') = None
                      then sets0 @ [((js ''updatedAt''), JDate now)] else sets0);
             sets2 = filter (\<lambda>(k, v). k \<in> set (paths S)) sets1;
             incs = filter (\<lambda>(k, n). k \<in> set (paths S)) (incFields u)
         in case castFields S sets2 of
              None \<Rightarrow> Inl CastError
            | Some sets \<Rightarrow>
                if runValidators \<and> \<not> validateUpdate S sets then Inl ValidationError
                else
                  (case map_of coll (oid i) of
                     None \<Rightarrow> Inr (None, coll)
                   | Some d \<Rightarrow>
                       (case applyIncs incs (applySets sets d) of
                          None \<Rightarrow> Inl QueryError
                        | Some d1 \<Rightarrow>
                            if \<not> uniqueOk (filter (\<lambda>p. map_of sets p \<noteq> None) (uniquePaths S))
                                   (oid i) d1 coll
                            then Inl DuplicateKey
                            else Inr (Some d1, AList.update (oid i) d1 coll)))))"

definition findByIdAndDelete :: "jstring \<Rightarrow> collection \<Rightarrow> error + doc option \<times> collection" where
  "findByIdAndDelete i coll =
     (if \<not> validObjectId i then Inl CastError
      else Inr (map_of coll (oid i), AList.delete (oid i) coll))"

subsection \<open>Sorted queries\<close>

text \<open>
  The order of values in a sort: missing and \<^verbatim>\<open>null\<close> first, then numbers, strings,
  objects, arrays, booleans, dates; numbers and dates by value, strings by their
  code points (the store compares the bytes of UTF-8), for which \<open>sortKey\<close> ranks the
  two halves of a surrogate pair above the code units from U+E000 on. Symbolic values,
  objects and arrays are not compared further.
\<close>

fun rank :: "json option \<Rightarrow> nat" where
  "rank None = 0"
| "rank (Some JNull) = 0"
| "rank (Some (JNum n)) = 1"
| "rank (Some JNaN) = 1"
| "rank (Some (JConv ParseFloat v)) = 1"
| "rank (Some (JStr s)) = 2"
| "rank (Some (JObj fs)) = 3"
| "rank (Some (JArr xs)) = 4"
| "rank (Some (JBool b)) = 5"
| "rank (Some (JDate t)) = 6"
| "rank (Some (JConv NewDate v)) = 6"

definition sortKey :: "codeUnit \<Rightarrow> nat" where
  "sortKey c = (if c < 0xD800 then c else if c < 0xE000 then c + 0x2000 else c - 0x0800)"

fun strLeq :: "jstring \<Rightarrow> jstring \<Rightarrow> bool" where
  "strLeq [] t = True"
| "strLeq (c # cs) [] = False"
| "strLeq (c # cs) (d # ds) =
     (sortKey c < sortKey d \<or> (c = d \<and> strLeq cs ds))"

fun sameRankLeq :: "json \<Rightarrow> json \<Rightarrow> bool" where
  "sameRankLeq (JNum a) (JNum b) = (a \<le> b)"
| "sameRankLeq (JNum a) JNaN = False"
| "sameRankLeq (JStr a) (JStr b) = strLeq a b"
| "sameRankLeq (JBool a) (JBool b) = (a \<longrightarrow> b)"
| "sameRankLeq (JDate a) (JDate b) = (a \<le> b)"
| "sameRankLeq x y = True"

definition valLeq :: "json option \<Rightarrow> json option \<Rightarrow> bool" where
  "valLeq x y =
     (if rank x < rank y then True
      else if rank y < rank x then False
      else (case (x, y) of (Some a, Some b) \<Rightarrow> sameRankLeq a b | _ \<Rightarrow> True))"

text \<open>
  A sort string of Mongoose: field names separated by white space, a leading \<^verbatim>\<open>-\<close> for
  descending order.
\<close>

fun tokensFrom :: "jstring \<Rightarrow> jstring \<Rightarrow> jstring list" where
  "tokensFrom acc [] = (if acc = [] then [] else [rev acc])"
| "tokensFrom acc (c # cs) =
     (if isSpace c then (if acc = [] then tokensFrom [] cs else rev acc # tokensFrom [] cs)
      else tokensFrom (c # acc) cs)"

definition tokens :: "jstring \<Rightarrow> jstring list" where
  "tokens s = tokensFrom [] s"

definition parseSort :: "jstring \<Rightarrow> (jstring \<times> bool) list" where
  "parseSort s =
     map (\<lambda>t. if take 1 t = (js ''-'') then (drop 1 t, False) else (t, True)) (tokens s)"

fun docLeq :: "(jstring \<times> bool) list \<Rightarrow> doc \<Rightarrow> doc \<Rightarrow> bool" where
  "docLeq [] a b = True"
| "docLeq ((f, asc) # ks) a b =
     (let x = map_of a f; y = map_of b f in
      if valLeq x y \<and> valLeq y x then docLeq ks a b
      else if asc then valLeq x y else valLeq y x)"

fun insertBy :: "('a \<Rightarrow> 'a \<Rightarrow> bool) \<Rightarrow> 'a \<Rightarrow> 'a list \<Rightarrow> 'a list" where
  "insertBy le x [] = [x]"
| "insertBy le x (y # ys) = (if le x y then x # y # ys else y # insertBy le x ys)"

definition sortBy :: "('a \<Rightarrow> 'a \<Rightarrow> bool) \<Rightarrow> 'a list \<Rightarrow> 'a list" where
  "sortBy le xs = foldr (insertBy le) xs []"

definition sortDocs :: "jstring \<Rightarrow> collection \<Rightarrow> collection" where
  "sortDocs s coll = sortBy (\<lambda>a b. docLeq (parseSort s) (snd a) (snd b)) coll"

section \<open>Book requests: the controller (bookRequestController.js)\<close>

text \<open>
  Every handler takes the model it imports (\<open>BookRequest\<close>, a schema), the time of the
  call and the request, and works on the collection of book requests.
\<close>

definition success :: "nat \<Rightarrow> json \<Rightarrow> jstring \<Rightarrow> result" where
  "success code d msg =
     Respond code (JObj [((js ''success''), JBool True), ((js ''data''), d), ((js ''message''), JStr msg)])"

text \<open>\<^verbatim>\<open>v ? v.trim() : d\<close>; \<open>None\<close> is the \<^verbatim>\<open>TypeError\<close> of a value without \<^verbatim>\<open>trim\<close>.\<close>

definition trimOr :: "json option \<Rightarrow> json \<Rightarrow> json option" where
  "trimOr v d = (case textOf v of Absent \<Rightarrow> Some d | Text s \<Rightarrow> Some (JStr (trim s)) | NotText \<Rightarrow> None)"

text \<open>\<^verbatim>\<open>v || d\<close>\<close>

definition orJ :: "json option \<Rightarrow> json \<Rightarrow> json" where
  "orJ v d = (case v of None \<Rightarrow> d | Some x \<Rightarrow> if truthy (Some x) then x else d)"

text \<open>The object handed to \<^verbatim>\<open>new BookRequest({...})\<close>.\<close>

definition newBookRequest :: "caseTables \<Rightarrow> req \<Rightarrow> jstring \<Rightarrow> jstring \<Rightarrow> jstring \<Rightarrow> json \<Rightarrow> json \<Rightarrow> json \<Rightarrow> doc" where
  "newBookRequest U r title author requesterEmail description requesterName isbn =
     [((js ''title''), JStr (trim title)),
      ((js ''author''), JStr (trim author)),
      ((js ''description''), description),
      ((js ''requesterEmail''), JStr (trim (toLowerCase U requesterEmail))),
      ((js ''requesterName''), requesterName),
      ((js ''isbn''), isbn),
      ((js ''genre''), orJ (field (body r) (js ''genre'')) (JStr (js ''Other''))),
      ((js ''publishYear''), (case field (body r) (js ''publishYear'') of
                           None \<Rightarrow> JNull
                         | Some y \<Rightarrow> if truthy (Some y) then parseIntJ y else JNull)),
      ((js ''status''), JStr (js ''pending''))]"

definition createBookRequest :: "caseTables \<Rightarrow> schema \<Rightarrow> int \<Rightarrow> jstring \<Rightarrow> req \<Rightarrow> collection \<Rightarrow> result \<times> collection" where
  "createBookRequest U BookRequest now newId r coll =
     (case textOf (field (body r) (js ''title'')) of
        NotText \<Rightarrow> (Next TypeError, coll)
      | Absent \<Rightarrow> (failure 400 (js ''Book title is required''), coll)
      | Text title \<Rightarrow>
     if trim title = [] then (failure 400 (js ''Book title is required''), coll) else
     (case textOf (field (body r) (js ''author'')) of
        NotText \<Rightarrow> (Next TypeError, coll)
      | Absent \<Rightarrow> (failure 400 (js ''Book author is required''), coll)
      | Text author \<Rightarrow>
     if trim author = [] then (failure 400 (js ''Book author is required''), coll) else
     (case textOf (field (body r) (js ''requesterEmail'')) of
        NotText \<Rightarrow> (Next TypeError, coll)
      | Absent \<Rightarrow> (failure 400 (js ''Requester email is required''), coll)
      | Text requesterEmail \<Rightarrow>
     if trim requesterEmail = [] then (failure 400 (js ''Requester email is required''), coll) else
     if \<not> matches emailRegex requesterEmail then
       (failure 400 (js ''Please provide a valid email address''), coll) else
     (case (trimOr (field (body r) (js ''description'')) (JStr []),
            trimOr (field (body r) (js ''requesterName'')) (JStr (js ''Anonymous'')),
            trimOr (field (body r) (js ''isbn'')) (JStr [])) of
        (Some description, Some requesterName, Some isbn) \<Rightarrow>
          (case create BookRequest now newId
                  (newBookRequest U r title author requesterEmail description requesterName isbn)
                  coll of
             Inl e \<Rightarrow> (Next e, coll)
           | Inr (entry, coll') \<Rightarrow>
               (success 201 (docJson entry)
                  (js ''Book request submitted successfully. Admins will review it soon!''), coll'))
      | _ \<Rightarrow> (Next TypeError, coll)))))"

text \<open>\<^verbatim>\<open>request.respondedBy = req.user.email\<close>\<close>

definition respondedBy :: "req \<Rightarrow> (jstring \<times> json) list" where
  "respondedBy r =
     (case user r of
        None \<Rightarrow> []
      | Some u \<Rightarrow> (case email u of None \<Rightarrow> [] | Some e \<Rightarrow> [((js ''respondedBy''), JStr e)]))"

definition approveBookRequest :: "caseTables \<Rightarrow> schema \<Rightarrow> procEnv \<Rightarrow> int \<Rightarrow> req \<Rightarrow> collection \<Rightarrow> result \<times> collection" where
  "approveBookRequest U BookRequest env now r coll =
     (if notAdmin U env r then
        (forbidden (js ''Only administrators can approve book requests.''), coll)
      else
        (case map_of (params r) (js ''id'') of
           None \<Rightarrow> (Next TypeError, coll)
         | Some i \<Rightarrow>
        if \<not> validObjectId i then (failure 400 (js ''Invalid request ID format''), coll) else
        (case findById coll i of
           Inl e \<Rightarrow> (Next e, coll)
         | Inr None \<Rightarrow> (failure 404 (js ''Book request not found''), coll)
         | Inr (Some request) \<Rightarrow>
        (case textOf (field (body r) (js ''adminNotes'')) of
           NotText \<Rightarrow> (Next TypeError, coll)
         | notes \<Rightarrow>
             (case save BookRequest now (oid i) request
                     ([((js ''status''), JStr (js ''approved''))] @ respondedBy r
                      @ [((js ''respondedAt''), JDate now)]
                      @ (case notes of Text s \<Rightarrow> [((js ''adminNotes''), JStr (trim s))] | _ \<Rightarrow> []))
                     coll of
                Inl e \<Rightarrow> (Next e, coll)
              | Inr (saved, coll') \<Rightarrow>
                  (success 200 (docJson (oid i, saved)) (js ''Book request approved successfully''),
                   coll'))))))"

definition rejectBookRequest :: "caseTables \<Rightarrow> schema \<Rightarrow> procEnv \<Rightarrow> int \<Rightarrow> req \<Rightarrow> collection \<Rightarrow> result \<times> collection" where
  "rejectBookRequest U BookRequest env now r coll =
     (if notAdmin U env r then
        (forbidden (js ''Only administrators can reject book requests.''), coll)
      else
        (case map_of (params r) (js ''id'') of
           None \<Rightarrow> (Next TypeError, coll)
         | Some i \<Rightarrow>
        if \<not> validObjectId i then (failure 400 (js ''Invalid request ID format''), coll) else
        (case textOf (field (body r) (js ''adminNotes'')) of
           NotText \<Rightarrow> (Next TypeError, coll)
         | Absent \<Rightarrow> (failure 400 (js ''Rejection reason (adminNotes) is required''), coll)
         | Text adminNotes \<Rightarrow>
        if trim adminNotes = [] then
          (failure 400 (js ''Rejection reason (adminNotes) is required''), coll) else
        (case findById coll i of
           Inl e \<Rightarrow> (Next e, coll)
         | Inr None \<Rightarrow> (failure 404 (js ''Book request not found''), coll)
         | Inr (Some request) \<Rightarrow>
             (case save BookRequest now (oid i) request
                     ([((js ''status''), JStr (js ''rejected''))] @ respondedBy r
                      @ [((js ''respondedAt''), JDate now), ((js ''adminNotes''), JStr (trim adminNotes))])
                     coll of
                Inl e \<Rightarrow> (Next e, coll)
              | Inr (saved, coll') \<Rightarrow>
                  (success 200 (docJson (oid i, saved)) (js ''Book request rejected''), coll'))))))"

definition markRequestFulfilled :: "caseTables \<Rightarrow> schema \<Rightarrow> procEnv \<Rightarrow> int \<Rightarrow> req \<Rightarrow> collection \<Rightarrow> result \<times> collection" where
  "markRequestFulfilled U BookRequest env now r coll =
     (if notAdmin U env r then
        (forbidden (js ''Only administrators can mark requests as fulfilled.''), coll)
      else
        (case map_of (params r) (js ''id'') of
           None \<Rightarrow> (Next TypeError, coll)
         | Some i \<Rightarrow>
        if \<not> validObjectId i then (failure 400 (js ''Invalid request ID format''), coll) else
        (case findById coll i of
           Inl e \<Rightarrow> (Next e, coll)
         | Inr None \<Rightarrow> (failure 404 (js ''Book request not found''), coll)
         | Inr (Some request) \<Rightarrow>
             (case save BookRequest now (oid i) request [((js ''status''), JStr (js ''fulfilled''))] coll of
                Inl e \<Rightarrow> (Next e, coll)
              | Inr (saved, coll') \<Rightarrow>
                  (success 200 (docJson (oid i, saved)) (js ''Request marked as fulfilled''), coll')))))"

definition upvoteRequest :: "schema \<Rightarrow> int \<Rightarrow> req \<Rightarrow> collection \<Rightarrow> result \<times> collection" where
  "upvoteRequest BookRequest now r coll =
     (case map_of (params r) (js ''id'') of
        None \<Rightarrow> (Next TypeError, coll)
      | Some i \<Rightarrow>
     if \<not> validObjectId i then (failure 400 (js ''Invalid request ID format''), coll) else
     (case findByIdAndUpdate BookRequest now False i
             \<lparr>setFields = [], incFields = [((js ''upvotes''), 1)]\<rparr> coll of
        Inl e \<Rightarrow> (Next e, coll)
      | Inr (None, coll') \<Rightarrow> (failure 404 (js ''Book request not found''), coll')
      | Inr (Some request, coll') \<Rightarrow>
          (success 200 (docJson (oid i, request)) (js ''Request upvoted successfully''), coll')))"

text \<open>
  \<^verbatim>\<open>getPendingRequests\<close>: the pending requests, sorted by the \<^verbatim>\<open>sort\<close> parameter
  (default \<^verbatim>\<open>-upvotes\<close>), one page of them, without the field \<^verbatim>\<open>adminNotes\<close>. A limit or
  skip that is \<^verbatim>\<open>NaN\<close> makes the query fail.
\<close>

definition ceilDiv :: "int \<Rightarrow> int \<Rightarrow> int" where
  "ceilDiv a b = - ((- a) div b)"

definition getPendingRequests :: "req \<Rightarrow> collection \<Rightarrow> result" where
  "getPendingRequests r coll =
     (let pg = clampedPaging r;
          sort = (case queryParam r (js ''sort'') of None \<Rightarrow> (js ''-upvotes'') | Some s \<Rightarrow> s)
      in case (pageNum pg, limitNum pg, skip pg) of
           (Some p, Some l, Some k) \<Rightarrow>
             (let found = filter (\<lambda>e. map_of (snd e) (js ''status'') = Some (JStr (js ''pending''))) coll;
                  requests = map (\<lambda>e. (fst e, AList.delete (js ''adminNotes'') (snd e)))
                               (take (nat l) (drop (nat k) (sortDocs sort found)));
                  total = int (length found)
              in Respond 200 (JObj
                   [((js ''success''), JBool True),
                    ((js ''data''), JArr (map docJson requests)),
                    ((js ''pagination''), JObj
                       [((js ''page''), JNum p), ((js ''limit''), JNum l), ((js ''total''), JNum total),
                        ((js ''pages''), JNum (ceilDiv total l))])]))
         | _ \<Rightarrow> Next QueryError)"

section \<open>Book requests: the router of \<^verbatim>\<open>/book-requests\<close>\<close>

text \<open>
  The router calls the model directly and checks no identity. The text of
  \<^verbatim>\<open>error.message\<close> is the library's; the model puts the kind of the error.
\<close>

fun errorMessage :: "error \<Rightarrow> jstring" where
  "errorMessage TypeError = (js ''TypeError'')"
| "errorMessage CastError = (js ''CastError'')"
| "errorMessage ValidationError = (js ''ValidationError'')"
| "errorMessage DuplicateKey = (js ''DuplicateKey'')"
| "errorMessage QueryError = (js ''QueryError'')"

definition routerError :: "nat \<Rightarrow> jstring \<Rightarrow> error \<Rightarrow> result" where
  "routerError code msg e =
     Respond code (JObj [((js ''message''), JStr msg), ((js ''error''), JStr (errorMessage e))])"

text \<open>The own fields of a body.\<close>

definition fieldsOf :: "json \<Rightarrow> doc" where
  "fieldsOf b = (case b of JObj fs \<Rightarrow> AList.clearjunk fs | _ \<Rightarrow> [])"

text \<open>\<^verbatim>\<open>router.post('/')\<close>\<close>

definition router_post :: "schema \<Rightarrow> int \<Rightarrow> jstring \<Rightarrow> req \<Rightarrow> collection \<Rightarrow> result \<times> collection" where
  "router_post BookRequest now newId r coll =
     (case create BookRequest now newId (fieldsOf (body r)) coll of
        Inl e \<Rightarrow> (routerError 400 (js ''Error creating book request'') e, coll)
      | Inr (entry, coll') \<Rightarrow> (Respond 201 (docJson entry), coll'))"

text \<open>\<^verbatim>\<open>router.put('/:id')\<close>\<close>

definition router_put :: "schema \<Rightarrow> int \<Rightarrow> req \<Rightarrow> collection \<Rightarrow> result \<times> collection" where
  "router_put BookRequest now r coll =
     (case map_of (params r) (js ''id'') of
        None \<Rightarrow> (routerError 400 (js ''Error updating book request'') CastError, coll)
      | Some i \<Rightarrow>
          (case findByIdAndUpdate BookRequest now True i
                  \<lparr>setFields = map (\<lambda>(k, v). (k, Some v))
                                 (AList.update (js ''updatedAt'') (JNum now) (fieldsOf (body r))),
                   incFields = []\<rparr> coll of
             Inl e \<Rightarrow> (routerError 400 (js ''Error updating book request'') e, coll)
           | Inr (None, coll') \<Rightarrow>
               (Respond 404 (JObj [((js ''message''), JStr (js ''Book request not found''))]), coll')
           | Inr (Some updatedRequest, coll') \<Rightarrow>
               (Respond 200 (docJson (oid i, updatedRequest)), coll')))"

text \<open>\<^verbatim>\<open>router.patch('/:id/status')\<close>\<close>

definition router_patch_status :: "schema \<Rightarrow> int \<Rightarrow> req \<Rightarrow> collection \<Rightarrow> result \<times> collection" where
  "router_patch_status BookRequest now r coll =
     (case map_of (params r) (js ''id'') of
        None \<Rightarrow> (routerError 400 (js ''Error updating request status'') CastError, coll)
      | Some i \<Rightarrow>
          (case findByIdAndUpdate BookRequest now True i
                  \<lparr>setFields = [((js ''status''), field (body r) (js ''status'')),
                                ((js ''adminNotes''), field (body r) (js ''adminNotes'')),
                                ((js ''updatedAt''), Some (JNum now))],
                   incFields = []\<rparr> coll of
             Inl e \<Rightarrow> (routerError 400 (js ''Error updating request status'') e, coll)
           | Inr (None, coll') \<Rightarrow>
               (Respond 404 (JObj [((js ''message''), JStr (js ''Book request not found''))]), coll')
           | Inr (Some updatedRequest, coll') \<Rightarrow>
               (Respond 200 (docJson (oid i, updatedRequest)), coll')))"

text \<open>\<^verbatim>\<open>router.delete('/:id')\<close>\<close>

definition router_delete :: "req \<Rightarrow> collection \<Rightarrow> result \<times> collection" where
  "router_delete r coll =
     (case map_of (params r) (js ''id'') of
        None \<Rightarrow> (routerError 500 (js ''Error deleting book request'') CastError, coll)
      | Some i \<Rightarrow>
          (case findByIdAndDelete i coll of
             Inl e \<Rightarrow> (routerError 500 (js ''Error deleting book request'') e, coll)
           | Inr (None, coll') \<Rightarrow>
               (Respond 404 (JObj [((js ''message''), JStr (js ''Book request not found''))]), coll')
           | Inr (Some deletedRequest, coll') \<Rightarrow>
               (Respond 200 (JObj [((js ''message''), JStr (js ''Book request deleted successfully'')),
                                   ((js ''request''), docJson (oid i, deletedRequest))]), coll')))"

section \<open>Books: the admin-gated writes (bookController.js)\<close>

text \<open>
  \<^verbatim>\<open>BookSchema.js\<close> is not among the sources: the handlers take the model \<open>Book\<close> as a
  parameter, and what is proved of them holds for every schema. The \<^verbatim>\<open>catch\<close> of error
  code 11000 shows a unique index, which a schema lists in \<open>uniquePaths\<close>.
\<close>

text \<open>\<^verbatim>\<open>if (!v || !v.trim()) return fail\<close>, then the rest of the handler on the string.\<close>

definition required :: "json option \<Rightarrow> result \<Rightarrow> collection \<Rightarrow> (jstring \<Rightarrow> result \<times> collection) \<Rightarrow> result \<times> collection" where
  "required v fail coll k =
     (case textOf v of
        NotText \<Rightarrow> (Next TypeError, coll)
      | Absent \<Rightarrow> (fail, coll)
      | Text s \<Rightarrow> if trim s = [] then (fail, coll) else k s)"

text \<open>\<^verbatim>\<open>v ? f(v) : undefined\<close>\<close>

definition whenTruthy :: "json option \<Rightarrow> (json \<Rightarrow> json) \<Rightarrow> json option" where
  "whenTruthy v f = (case v of None \<Rightarrow> None | Some x \<Rightarrow> if truthy (Some x) then Some (f x) else None)"

text \<open>\<^verbatim>\<open>v ? v.trim() : undefined\<close>; the outer \<open>None\<close> is the \<^verbatim>\<open>TypeError\<close>.\<close>

definition trimOpt :: "json option \<Rightarrow> json option option" where
  "trimOpt v = (case textOf v of Absent \<Rightarrow> Some None | Text s \<Rightarrow> Some (Some (JStr (trim s))) | NotText \<Rightarrow> None)"

text \<open>\<^verbatim>\<open>Array.isArray(tags) ? tags.map(t => t.trim()).filter(t => t) : []\<close>\<close>

fun stringsOf :: "json list \<Rightarrow> jstring list option" where
  "stringsOf [] = Some []"
| "stringsOf (JStr s # xs) = map_option ((#) s) (stringsOf xs)"
| "stringsOf (x # xs) = None"

definition trimTags :: "json option \<Rightarrow> json option" where
  "trimTags tags =
     (case tags of
        Some (JArr ts) \<Rightarrow>
          map_option (\<lambda>ss. JArr (map JStr (filter (\<lambda>t. t \<noteq> []) (map trim ss)))) (stringsOf ts)
      | _ \<Rightarrow> Some (JArr []))"

text \<open>An object literal whose \<^verbatim>\<open>undefined\<close> fields are left out.\<close>

definition defined :: "(jstring \<times> json option) list \<Rightarrow> doc" where
  "defined fs = concat (map (\<lambda>(k, v). case v of None \<Rightarrow> [] | Some w \<Rightarrow> [(k, w)]) fs)"

definition createBook :: "caseTables \<Rightarrow> schema \<Rightarrow> procEnv \<Rightarrow> int \<Rightarrow> jstring \<Rightarrow> req \<Rightarrow> collection \<Rightarrow> result \<times> collection" where
  "createBook U Book env now newId r coll =
     (if notAdmin U env r then
        (forbidden (js ''Only administrators can create books. Please login with an admin account.''), coll)
      else
        required (field (body r) (js ''name'')) (failure 400 (js ''Book title (name) is required'')) coll (\<lambda>name.
        required (field (body r) (js ''author'')) (failure 400 (js ''Author name is required'')) coll (\<lambda>author.
        required (field (body r) (js ''ISBN'')) (failure 400 (js ''ISBN is required'')) coll (\<lambda>ISBN.
        required (field (body r) (js ''image_link'')) (failure 400 (js ''Image link is required'')) coll (\<lambda>image_link.
        required (field (body r) (js ''amazon_link'')) (failure 400 (js ''Amazon link is required'')) coll (\<lambda>amazon_link.
          if list_ex (\<lambda>e. map_of (snd e) (js ''ISBN'') = Some (JStr ISBN)) coll then
            (failure 409 (js ''A book with this ISBN already exists''), coll)
          else
            (case (trimOpt (field (body r) (js ''description'')),
                   trimOpt (field (body r) (js ''publisher'')),
                   trimTags (field (body r) (js ''tags''))) of
               (Some description, Some publisher, Some tags) \<Rightarrow>
                 (case create Book now newId
                         (defined
                            [((js ''name''), Some (JStr (trim name))),
                             ((js ''author''), Some (JStr (trim author))),
                             ((js ''ISBN''), Some (JStr (trim ISBN))),
                             ((js ''image_link''), Some (JStr (trim image_link))),
                             ((js ''amazon_link''), Some (JStr (trim amazon_link))),
                             ((js ''description''), description),
                             ((js ''genre''), Some (orJ (field (body r) (js ''genre'')) (JStr (js ''Other'')))),
                             ((js ''pages''), whenTruthy (field (body r) (js ''pages'')) parseIntJ),
                             ((js ''publishDate''), whenTruthy (field (body r) (js ''publishDate'')) (JConv NewDate)),
                             ((js ''publisher''), publisher),
                             ((js ''language''), Some (orJ (field (body r) (js ''language'')) (JStr (js ''English'')))),
                             ((js ''price''), whenTruthy (field (body r) (js ''price'')) (JConv ParseFloat)),
                             ((js ''discount''), Some (case whenTruthy (field (body r) (js ''discount'')) (JConv ParseFloat) of
                                                    None \<Rightarrow> JNum 0 | Some x \<Rightarrow> x)),
                             ((js ''tags''), Some tags)]) coll of
                    Inl DuplicateKey \<Rightarrow> (failure 409 (js ''A book with this ISBN already exists''), coll)
                  | Inl e \<Rightarrow> (Next e, coll)
                  | Inr (entry, coll') \<Rightarrow>
                      (success 201 (docJson entry) (js ''Book created successfully''), coll'))
             | _ \<Rightarrow> (Next TypeError, coll))))))))"

text \<open>\<^verbatim>\<open>if (d.k) d.k = d.k.trim()\<close> for each of the keys; \<open>None\<close> is the \<^verbatim>\<open>TypeError\<close>.\<close>

fun trimFields :: "jstring list \<Rightarrow> doc \<Rightarrow> doc option" where
  "trimFields [] d = Some d"
| "trimFields (k # ks) d =
     (case textOf (map_of d k) of
        Absent \<Rightarrow> trimFields ks d
      | Text s \<Rightarrow> trimFields ks (AList.update k (JStr (trim s)) d)
      | NotText \<Rightarrow> None)"

text \<open>\<^verbatim>\<open>if (d.k) d.k = f(d.k)\<close>\<close>

definition convertIf :: "jstring \<Rightarrow> (json \<Rightarrow> json) \<Rightarrow> doc \<Rightarrow> doc" where
  "convertIf k f d =
     (case map_of d k of
        None \<Rightarrow> d
      | Some v \<Rightarrow> if truthy (Some v) then AList.update k (f v) d else d)"

text \<open>
  \<^verbatim>\<open>if (d.copies !== undefined) d.copies = parseInt(d.copies)\<close> and then
  \<^verbatim>\<open>d.availability = d.copies > 0\<close>.
\<close>

definition convertCopies :: "doc \<Rightarrow> doc" where
  "convertCopies d =
     (case map_of d (js ''copies'') of
        None \<Rightarrow> d
      | Some v \<Rightarrow>
          AList.update (js ''availability'')
            (JBool (case parseIntJ v of JNum n \<Rightarrow> n > 0 | _ \<Rightarrow> False))
            (AList.update (js ''copies'') (parseIntJ v) d))"

definition bookUpdated :: "error + doc option \<times> collection \<Rightarrow> jstring \<Rightarrow> collection \<Rightarrow> result \<times> collection" where
  "bookUpdated res i coll =
     (case res of
        Inl DuplicateKey \<Rightarrow> (failure 409 (js ''A book with this ISBN already exists''), coll)
      | Inl e \<Rightarrow> (Next e, coll)
      | Inr (None, coll') \<Rightarrow> (failure 404 (js ''Book not found''), coll')
      | Inr (Some book, coll') \<Rightarrow>
          (success 200 (docJson (oid i, book)) (js ''Book updated successfully''), coll'))"

definition updateBook :: "caseTables \<Rightarrow> schema \<Rightarrow> procEnv \<Rightarrow> int \<Rightarrow> req \<Rightarrow> collection \<Rightarrow> result \<times> collection" where
  "updateBook U Book env now r coll =
     (if notAdmin U env r then
        (forbidden (js ''Only administrators can update books. Please login with an admin account.''), coll)
      else
        (case map_of (params r) (js ''id'') of
           None \<Rightarrow> (Next TypeError, coll)
         | Some i \<Rightarrow>
        if \<not> validObjectId i then (failure 400 (js ''Invalid book ID format''), coll) else
        (case trimFields [(js ''name''), (js ''author''), (js ''description''), (js ''ISBN'')]
                (AList.delete (js ''__v'') (AList.delete (js ''_id'') (fieldsOf (body r)))) of
           None \<Rightarrow> (Next TypeError, coll)
         | Some trimmed \<Rightarrow>
             (let updateData =
                    convertCopies
                      (convertIf (js ''discount'') (JConv ParseFloat)
                        (convertIf (js ''price'') (JConv ParseFloat)
                          (convertIf (js ''pages'') parseIntJ trimmed)))
              in bookUpdated
                   (findByIdAndUpdate Book now True i
                      \<lparr>setFields = map (\<lambda>(k, v). (k, Some v)) updateData, incFields = []\<rparr> coll)
                   i coll))))"

definition allowedFields :: "jstring list" where
  "allowedFields =
     [(js ''name''), (js ''author''), (js ''ISBN''), (js ''description''), (js ''genre''), (js ''image_link''),
      (js ''amazon_link''), (js ''publishDate''), (js ''pages''), (js ''rating''), (js ''reviewCount''),
      (js ''availability''), (js ''copies''), (js ''price''), (js ''discount''), (js ''tags''), (js ''featured''),
      (js ''publisher''), (js ''language''), (js ''downloads''), (js ''views'')]"

definition patchBook :: "caseTables \<Rightarrow> schema \<Rightarrow> procEnv \<Rightarrow> int \<Rightarrow> req \<Rightarrow> collection \<Rightarrow> result \<times> collection" where
  "patchBook U Book env now r coll =
     (if notAdmin U env r then
        (forbidden (js ''Only administrators can update books. Please login with an admin account.''), coll)
      else
        (case map_of (params r) (js ''id'') of
           None \<Rightarrow> (Next TypeError, coll)
         | Some i \<Rightarrow>
        if \<not> validObjectId i then (failure 400 (js ''Invalid book ID format''), coll) else
        (let updates = defined (map (\<lambda>f. (f, field (body r) f)) allowedFields) in
         if length updates = 0 then (failure 400 (js ''No valid fields to update''), coll) else
         (case trimFields [(js ''name''), (js ''author''), (js ''description'')] updates of
            None \<Rightarrow> (Next TypeError, coll)
          | Some trimmed \<Rightarrow>
              bookUpdated
                (findByIdAndUpdate Book now True i
                   \<lparr>setFields = map (\<lambda>(k, v). (k, Some v)) trimmed, incFields = []\<rparr> coll)
                i coll))))"

definition deleteBook :: "caseTables \<Rightarrow> procEnv \<Rightarrow> req \<Rightarrow> collection \<Rightarrow> result \<times> collection" where
  "deleteBook U env r coll =
     (if notAdmin U env r then
        (forbidden (js ''Only administrators can delete books. Please login with an admin account.''), coll)
      else
        (case map_of (params r) (js ''id'') of
           None \<Rightarrow> (Next TypeError, coll)
         | Some i \<Rightarrow>
        if \<not> validObjectId i then (failure 400 (js ''Invalid book ID format''), coll) else
        (case findByIdAndDelete i coll of
           Inl e \<Rightarrow> (Next e, coll)
         | Inr (None, coll') \<Rightarrow> (failure 404 (js ''Book not found''), coll')
         | Inr (Some book, coll') \<Rightarrow>
             (success 200 (docJson (oid i, book)) (js ''Book deleted successfully''), coll'))))"

definition deleteMultipleBooks :: "caseTables \<Rightarrow> procEnv \<Rightarrow> req \<Rightarrow> collection \<Rightarrow> result \<times> collection" where
  "deleteMultipleBooks U env r coll =
     (if notAdmin U env r then
        (forbidden (js ''Only administrators can delete books. Please login with an admin account.''), coll)
      else
        (case field (body r) (js ''ids'') of
           Some (JArr ids) \<Rightarrow>
             if ids = [] then (failure 400 (js ''Array of book IDs is required''), coll) else
             (case stringsOf ids of
                None \<Rightarrow> (Next TypeError, coll)
              | Some ss \<Rightarrow>
                  if length (filter validObjectId ss) \<noteq> length ss then
                    (failure 400 (js ''Some book IDs are invalid''), coll)
                  else
                    (let coll' = filter (\<lambda>e. fst e \<notin> set (map oid ss)) coll;
                         deletedCount = int (length coll) - int (length coll')
                     in (Respond 200 (JObj
                           [((js ''success''), JBool True),
                            ((js ''message''), JStr (showInt deletedCount @ (js '' book(s) deleted successfully''))),
                            ((js ''deletedCount''), JNum deletedCount)]), coll')))
         | _ \<Rightarrow> (failure 400 (js ''Array of book IDs is required''), coll)))"

text \<open>
  The admin-gated writes as one operation on the two collections, and the requests a
  router can hand to them.
\<close>

datatype gated =
    CreateBook | UpdateBook | PatchBook | DeleteBook | DeleteMultipleBooks
  | ApproveBookRequest | RejectBookRequest | MarkRequestFulfilled

record db =
  books :: collection
  bookRequests :: collection

fun runGated :: "caseTables \<Rightarrow> gated \<Rightarrow> schema \<Rightarrow> procEnv \<Rightarrow> int \<Rightarrow> jstring \<Rightarrow> req \<Rightarrow> db \<Rightarrow> result \<times> db" where
  "runGated U CreateBook Book env now newId r s =
     (case createBook U Book env now newId r (books s) of (res, c) \<Rightarrow> (res, s\<lparr>books := c\<rparr>))"
| "runGated U UpdateBook Book env now newId r s =
     (case updateBook U Book env now r (books s) of (res, c) \<Rightarrow> (res, s\<lparr>books := c\<rparr>))"
| "runGated U PatchBook Book env now newId r s =
     (case patchBook U Book env now r (books s) of (res, c) \<Rightarrow> (res, s\<lparr>books := c\<rparr>))"
| "runGated U DeleteBook Book env now newId r s =
     (case deleteBook U env r (books s) of (res, c) \<Rightarrow> (res, s\<lparr>books := c\<rparr>))"
| "runGated U DeleteMultipleBooks Book env now newId r s =
     (case deleteMultipleBooks U env r (books s) of (res, c) \<Rightarrow> (res, s\<lparr>books := c\<rparr>))"
| "runGated U ApproveBookRequest Book env now newId r s =
     (case approveBookRequest U bookRequestSchema env now r (bookRequests s) of
        (res, c) \<Rightarrow> (res, s\<lparr>bookRequests := c\<rparr>))"
| "runGated U RejectBookRequest Book env now newId r s =
     (case rejectBookRequest U bookRequestSchema env now r (bookRequests s) of
        (res, c) \<Rightarrow> (res, s\<lparr>bookRequests := c\<rparr>))"
| "runGated U MarkRequestFulfilled Book env now newId r s =
     (case markRequestFulfilled U bookRequestSchema env now r (bookRequests s) of
        (res, c) \<Rightarrow> (res, s\<lparr>bookRequests := c\<rparr>))"

section \<open>The operations of the controller's request API\<close>

datatype requestOp = OpCreate | OpApprove | OpReject | OpFulfill | OpUpvote

fun runRequestOp :: "caseTables \<Rightarrow> requestOp \<Rightarrow> schema \<Rightarrow> procEnv \<Rightarrow> int \<Rightarrow> jstring \<Rightarrow> req \<Rightarrow> collection \<Rightarrow> result \<times> collection" where
  "runRequestOp U OpCreate BookRequest env now newId r coll = createBookRequest U BookRequest now newId r coll"
| "runRequestOp U OpApprove BookRequest env now newId r coll = approveBookRequest U BookRequest env now r coll"
| "runRequestOp U OpReject BookRequest env now newId r coll = rejectBookRequest U BookRequest env now r coll"
| "runRequestOp U OpFulfill BookRequest env now newId r coll = markRequestFulfilled U BookRequest env now r coll"
| "runRequestOp U OpUpvote BookRequest env now newId r coll = upvoteRequest BookRequest now r coll"

text \<open>Upvotes by a sequence of callers, one request each, at the times given.\<close>

fun upvoteAll :: "schema \<Rightarrow> (int \<times> req) list \<Rightarrow> collection \<Rightarrow> collection" where
  "upvoteAll BookRequest [] coll = coll"
| "upvoteAll BookRequest ((now, r) # rs) coll =
     upvoteAll BookRequest rs (snd (upvoteRequest BookRequest now r coll))"

section \<open>Sample data\<close>

definition sampleEnv :: procEnv where
  "sampleEnv = \<lparr>VITE_ADMIN_EMAILS = Some (js ''admin@easyreads.com''), ADMIN_EMAILS = None,
                OPENAI_API_KEY = None\<rparr>"

definition adminUser :: "user option" where
  "adminUser = Some \<lparr>email = Some (js ''admin@easyreads.com'')\<rparr>"

definition readerUser :: "user option" where
  "readerUser = Some \<lparr>email = Some (js ''reader@example.com'')\<rparr>"

definition idDune :: jstring where
  "idDune = (js ''64b7f0c2a1d3e4f5a6b7c8d9'')"

definition idEmma :: jstring where
  "idEmma = (js ''64b7f0c2a1d3e4f5a6b7c8da'')"

definition requestOf :: "jstring \<Rightarrow> jstring \<Rightarrow> jstring \<Rightarrow> jstring \<Rightarrow> int \<Rightarrow> doc" where
  "requestOf bookName author by notes t =
     [((js ''bookName''), JStr bookName), ((js ''author''), JStr author),
      ((js ''requestedBy''), JStr by), ((js ''requestedByUid''), JStr (js ''uid-1'')),
      ((js ''status''), JStr (js ''pending'')), ((js ''adminNotes''), JStr notes),
      ((js ''requestedAt''), JDate t), ((js ''updatedAt''), JDate t), ((js ''createdAt''), JDate t)]"

definition sampleRequests :: collection where
  "sampleRequests =
     [(idDune, requestOf (js ''Dune'') (js ''Frank Herbert'') (js ''reader@example.com'') (js ''rare edition'') 1000),
      (idEmma, requestOf (js ''Emma'') (js ''Jane Austen'') (js ''reader@example.com'') (js ''in stock soon'') 2000)]"

text \<open>The same requests with the two admin notes exchanged.\<close>

definition sampleRequestsSwapped :: collection where
  "sampleRequestsSwapped =
     [(idDune, requestOf (js ''Dune'') (js ''Frank Herbert'') (js ''reader@example.com'') (js ''in stock soon'') 1000),
      (idEmma, requestOf (js ''Emma'') (js ''Jane Austen'') (js ''reader@example.com'') (js ''rare edition'') 2000)]"

text \<open>
  Modelled from the spec: \<^verbatim>\<open>BookSchema.js\<close> is not among the sources. A schema with the
  fields the specification lists for a book, the five fields \<^verbatim>\<open>createBook\<close> requires, a
  unique \<^verbatim>\<open>ISBN\<close>, and no casts. It only stands in for the parameter \<open>Book\<close> where a
  statement about every schema is applied to sample data.
\<close>

definition sampleBookSchema :: schema where
  "sampleBookSchema =
     \<lparr>paths = [(js ''name''), (js ''author''), (js ''ISBN''), (js ''image_link''), (js ''amazon_link''), (js ''description''),
               (js ''genre''), (js ''pages''), (js ''publishDate''), (js ''publisher''), (js ''language''), (js ''price''),
               (js ''discount''), (js ''tags''), (js ''rating''), (js ''reviewCount''), (js ''availability''), (js ''copies''),
               (js ''downloads''), (js ''views''), (js ''featured''), (js ''createdAt''), (js ''updatedAt'')],
      castAt = (\<lambda>p v. Some v),
      defaultsAt = (\<lambda>now. []),
      requiredPaths = [(js ''name''), (js ''author''), (js ''ISBN''), (js ''image_link''), (js ''amazon_link'')],
      enums = [],
      uniquePaths = [(js ''ISBN'')],
      timestamps = True\<rparr>"

definition sampleBooks :: collection where
  "sampleBooks =
     [((js ''64b7f0c2a1d3e4f5a6b7c8e0''),
       [((js ''name''), JStr (js ''Dune'')), ((js ''author''), JStr (js ''Frank Herbert'')),
        ((js ''ISBN''), JStr (js ''9780441013593'')), ((js ''image_link''), JStr (js ''https://example.com/dune.png'')),
        ((js ''amazon_link''), JStr (js ''https://example.com/dune'')), ((js ''createdAt''), JDate 500),
        ((js ''updatedAt''), JDate 500)])]"

definition request :: "user option \<Rightarrow> jstring \<Rightarrow> (jstring \<times> jstring) list \<Rightarrow> json \<Rightarrow> req" where
  "request u i q b = \<lparr>user = u, params = [((js ''id''), i)], query = q, body = b\<rparr>"

section \<open>Properties\<close>

subsection \<open>String literals\<close>

lemma js_eq_iff [simp]: "js a = js b \<longleftrightarrow> a = b"
proof -
  have "inj (of_char :: char \<Rightarrow> nat)" by (simp add: inj_on_def)
  then show ?thesis unfolding js_def by (simp add: inj_map_eq_map)
qed

lemma js_empty_iff [simp]: "js a = [] \<longleftrightarrow> a = []" "[] = js a \<longleftrightarrow> a = []"
  by (auto simp: js_def)

subsection \<open>Lookups in documents and collections\<close>

lemma applySets_other:
  "\<forall>k \<in> fst ` set sets. k \<in> A \<Longrightarrow> f \<notin> A \<Longrightarrow> map_of (applySets sets d) f = map_of d f"
proof (induction sets arbitrary: d)
  case Nil
  then show ?case by simp
next
  case (Cons a sets)
  obtain k v where a: "a = (k, v)" by (cases a)
  with Cons.prems have "k \<in> A" by simp
  with Cons.prems have "f \<noteq> k" by auto
  with Cons a show ?case by (simp add: update_conv')
qed

lemma applyIncs_other:
  "applyIncs incs d = Some d' \<Longrightarrow> \<forall>k \<in> fst ` set incs. k \<in> A \<Longrightarrow> f \<notin> A
     \<Longrightarrow> map_of d' f = map_of d f"
proof (induction incs arbitrary: d)
  case Nil
  then show ?case by simp
next
  case (Cons a incs)
  obtain k n where a: "a = (k, n)" by (cases a)
  with Cons.prems have kA: "k \<in> A" by simp
  with Cons.prems have fk: "f \<noteq> k" by auto
  from Cons.prems a obtain d1 where d1: "applyIncs incs d1 = Some d'"
      and d1v: "\<exists>v. d1 = AList.update k v d"
    by (auto split: option.splits json.splits)
  from Cons.IH[OF d1] Cons.prems have "map_of d' f = map_of d1 f" by simp
  with d1v fk show ?case by (auto simp: update_conv')
qed

lemma castFields_keys: "castFields S fs = Some gs \<Longrightarrow> fst ` set gs = fst ` set fs"
proof (induction fs arbitrary: gs)
  case Nil
  then show ?case by simp
next
  case (Cons a fs)
  obtain k v where a: "a = (k, v)" by (cases a)
  with Cons.prems obtain w hs where "castAt S k v = Some w" "castFields S fs = Some hs"
      "gs = (k, w) # hs"
    by (auto split: option.splits)
  with Cons.IH a show ?case by auto
qed

text \<open>
  An update changes no stored document but the one addressed, and of that one only
  declared paths among those it sets or increments, and \<^verbatim>\<open>updatedAt\<close>.
\<close>

lemma findByIdAndUpdate_other_fields:
  assumes res: "findByIdAndUpdate S now rv i u coll = Inr (out, coll')"
      and keys: "(fst ` set (setFields u) \<union> fst ` set (incFields u) \<union> {(js ''updatedAt'')})
                   \<inter> set (paths S) \<subseteq> A"
      and stored: "map_of coll k = Some d"
  shows "\<exists>d'. map_of coll' k = Some d' \<and> (\<forall>f. f \<notin> A \<longrightarrow> map_of d' f = map_of d f)"
proof -
  define sets0 where
    "sets0 = concat (map (\<lambda>(k, v). case v of None \<Rightarrow> [] | Some w \<Rightarrow> [(k, w)]) (setFields u))"
  define sets1 where
    "sets1 = (if timestamps S \<and> map_of sets0 (js ''updatedAt'') = None
              then sets0 @ [((js ''updatedAt''), JDate now)] else sets0)"
  define sets2 where "sets2 = filter (\<lambda>(k, v). k \<in> set (paths S)) sets1"
  define incs where "incs = filter (\<lambda>(k, n). k \<in> set (paths S)) (incFields u)"
  have fu: "findByIdAndUpdate S now rv i u coll =
     (if \<not> validObjectId i then Inl CastError
      else
        (case castFields S sets2 of
              None \<Rightarrow> Inl CastError
            | Some sets \<Rightarrow>
                if rv \<and> \<not> validateUpdate S sets then Inl ValidationError
                else
                  (case map_of coll (oid i) of
                     None \<Rightarrow> Inr (None, coll)
                   | Some d \<Rightarrow>
                       (case applyIncs incs (applySets sets d) of
                          None \<Rightarrow> Inl QueryError
                        | Some d1 \<Rightarrow>
                            if \<not> uniqueOk (filter (\<lambda>p. map_of sets p \<noteq> None) (uniquePaths S))
                                   (oid i) d1 coll
                            then Inl DuplicateKey
                            else Inr (Some d1, AList.update (oid i) d1 coll)))))"
    unfolding findByIdAndUpdate_def Let_def sets2_def sets1_def sets0_def incs_def ..
  have k0: "fst ` set sets0 \<subseteq> fst ` set (setFields u)"
    by (force simp: sets0_def split: option.splits)
  have k1: "fst ` set sets1 \<subseteq> fst ` set (setFields u) \<union> {(js ''updatedAt'')}"
    using k0 by (auto simp: sets1_def)
  have k2: "\<forall>k \<in> fst ` set sets2. k \<in> A"
  proof
    fix k assume "k \<in> fst ` set sets2"
    then have "k \<in> fst ` set sets1" and "k \<in> set (paths S)"
      by (auto simp: sets2_def)
    with k1 keys show "k \<in> A" by blast
  qed
  have ki: "\<forall>k \<in> fst ` set incs. k \<in> A"
  proof
    fix k assume "k \<in> fst ` set incs"
    then have "k \<in> fst ` set (incFields u)" and "k \<in> set (paths S)"
      by (auto simp: incs_def)
    with keys show "k \<in> A" by blast
  qed
  from res fu obtain sets where cs: "castFields S sets2 = Some sets"
    by (auto split: if_splits option.splits)
  from castFields_keys[OF cs] k2 have ks: "\<forall>k \<in> fst ` set sets. k \<in> A" by simp
  show ?thesis
  proof (cases "map_of coll (oid i)")
    case None
    with res fu cs have "coll' = coll" by (auto split: if_splits)
    with stored show ?thesis by simp
  next
    case (Some d0)
    with res fu cs obtain d1 where d1: "applyIncs incs (applySets sets d0) = Some d1"
        and c': "coll' = AList.update (oid i) d1 coll"
      by (auto split: if_splits option.splits)
    have pres: "\<forall>f. f \<notin> A \<longrightarrow> map_of d1 f = map_of d0 f"
      using applyIncs_other[OF d1 ki] applySets_other[OF ks] by metis
    show ?thesis
    proof (cases "k = oid i")
      case True
      with stored Some have "d = d0" by simp
      with c' True pres show ?thesis by (simp add: update_conv')
    next
      case False
      with c' stored show ?thesis by (simp add: update_conv')
    qed
  qed
qed

lemma upvote_other_fields:
  assumes stored: "map_of coll k = Some d"
      and keys: "{(js ''upvotes''), (js ''updatedAt'')} \<inter> set (paths S) \<subseteq> A"
  shows "\<exists>d'. map_of (snd (upvoteRequest S now r coll)) k = Some d'
           \<and> (\<forall>f. f \<notin> A \<longrightarrow> map_of d' f = map_of d f)"
proof (cases "findByIdAndUpdate S now False
                (case map_of (params r) (js ''id'') of Some i \<Rightarrow> i | None \<Rightarrow> [])
                \<lparr>setFields = [], incFields = [((js ''upvotes''), 1)]\<rparr> coll")
  case (Inl e)
  with stored show ?thesis by (simp add: upvoteRequest_def split: option.splits)
next
  case (Inr p)
  obtain out coll' where p: "p = (out, coll')" by (cases p)
  from keys have "(fst ` set (setFields \<lparr>setFields = [], incFields = [((js ''upvotes''), 1::int)]\<rparr>)
       \<union> fst ` set (incFields \<lparr>setFields = [], incFields = [((js ''upvotes''), 1::int)]\<rparr>)
       \<union> {(js ''updatedAt'')}) \<inter> set (paths S) \<subseteq> A"
    by auto
  from findByIdAndUpdate_other_fields[OF Inr[unfolded p] this stored]
  have "\<exists>d'. map_of coll' k = Some d' \<and> (\<forall>f. f \<notin> A \<longrightarrow> map_of d' f = map_of d f)" .
  with Inr p stored show ?thesis
    by (auto simp: upvoteRequest_def split: option.splits)
qed

lemma create_preserves:
  "create S now newId obj coll = Inr (e, coll') \<Longrightarrow> map_of coll k = Some d
     \<Longrightarrow> map_of coll' k = Some d"
  by (auto simp: create_def Let_def split: option.splits if_splits)

lemma createBookRequest_writes:
  "snd (createBookRequest U S now newId r coll) = coll
   \<or> (\<exists>obj e. create S now newId obj coll = Inr (e, snd (createBookRequest U S now newId r coll)))"
  unfolding createBookRequest_def
  by (auto split: textual.split option.split sum.split prod.split)

lemma createBookRequest_preserves:
  assumes "map_of coll k = Some d"
  shows "map_of (snd (createBookRequest U S now newId r coll)) k = Some d"
  using createBookRequest_writes[of U S now newId r coll] assms create_preserves by metis

lemma assignAll_append:
  "assignAll S (as @ bs) d
     = (case assignAll S as d of None \<Rightarrow> None | Some d1 \<Rightarrow> assignAll S bs d1)"
  by (induction S as d rule: assignAll.induct) (auto split: option.splits)

lemma assignAll_undeclared:
  "assignAll S as d = Some d1 \<Longrightarrow> f \<notin> set (paths S) \<Longrightarrow> map_of d1 f = map_of d f"
proof (induction S as d rule: assignAll.induct)
  case (1 S d)
  then show ?case by simp
next
  case (2 S k v as d)
  show ?case
  proof (cases "k \<in> set (paths S)")
    case True
    with "2.prems" obtain w where w: "castAt S k v = Some w"
        and r: "assignAll S as (AList.update k w d) = Some d1"
      by (auto split: option.splits)
    from True "2.prems" have "f \<noteq> k" by auto
    with "2.IH"(1)[OF True w r "2.prems"(2)] show ?thesis by (simp add: update_conv')
  next
    case False
    with "2.prems" "2.IH"(2) show ?thesis by simp
  qed
qed

lemma respondedBy_undeclared: "assignAll bookRequestSchema (respondedBy r) d = Some d"
  by (simp add: respondedBy_def bookRequestSchema_def split: option.splits)

lemma schema_timestamps: "timestamps bookRequestSchema"
  by (simp add: bookRequestSchema_def)

lemma if_in: "x \<in> A \<Longrightarrow> y \<in> A \<Longrightarrow> (if c then x else y) \<in> A"
  by simp

lemma adminSet_eq: "set (getAdminEmails U env) = adminSet U (adminEnv env)"
  by (auto simp: getAdminEmails_def adminSet_def toLowerCase_def trim_def)

subsection \<open>C1: the admin gate of the write endpoints\<close>

text \<open>
  C1, as the code has it. Each admin-gated write (book create, update, patch, delete and
  bulk delete, and the approve, reject and fulfill transitions of a request) makes the
  check \<^verbatim>\<open>!req.user || !isAdminEmail(req.user.email)\<close> itself: a call with no identity
  and a call with a non-admin identity both get status 403, and both collections are
  left as they were, whatever the schema of the books. The middleware \<^verbatim>\<open>requireAdmin\<close>
  answers 401 when the identity or its email is missing and 403 when the email is not
  an admin's, without calling the next handler; the book routes mount the controllers
  without it.
\<close>

theorem gated_writes_forbidden:
  "(notAdmin U env r \<longrightarrow>
      statusOf (fst (runGated U op Book env now newId r s)) = Some 403
      \<and> snd (runGated U op Book env now newId r s) = s)
   \<and> (user r = None \<longrightarrow> notAdmin U env r \<and> (\<exists>b. requireAdmin U env r = Inl (Respond 401 b)))
   \<and> (\<forall>u. user r = Some u \<and> (email u = None \<or> email u = Some []) \<longrightarrow>
          notAdmin U env r \<and> (\<exists>b. requireAdmin U env r = Inl (Respond 401 b)))
   \<and> (\<forall>u e. user r = Some u \<and> email u = Some e \<and> e \<noteq> [] \<and> \<not> isAdminEmail U env (Some e) \<longrightarrow>
          notAdmin U env r \<and> (\<exists>b. requireAdmin U env r = Inl (Respond 403 b)))"
proof -
  have a: "notAdmin U env r \<Longrightarrow> statusOf (fst (runGated U op Book env now newId r s)) = Some 403
      \<and> snd (runGated U op Book env now newId r s) = s"
    by (cases op)
       (simp_all add: createBook_def updateBook_def patchBook_def deleteBook_def
          deleteMultipleBooks_def approveBookRequest_def rejectBookRequest_def
          markRequestFulfilled_def forbidden_def statusOf_def)
  have b: "user r = None \<Longrightarrow> notAdmin U env r \<and> (\<exists>b. requireAdmin U env r = Inl (Respond 401 b))"
    by (simp add: notAdmin_def requireAdmin_def)
  have c: "user r = Some u \<and> (email u = None \<or> email u = Some []) \<Longrightarrow>
          notAdmin U env r \<and> (\<exists>b. requireAdmin U env r = Inl (Respond 401 b))" for u
    by (auto simp: notAdmin_def requireAdmin_def isAdminEmail_def)
  have d: "user r = Some u \<and> email u = Some e \<and> e \<noteq> [] \<and> \<not> isAdminEmail U env (Some e) \<Longrightarrow>
          notAdmin U env r \<and> (\<exists>b. requireAdmin U env r = Inl (Respond 403 b))" for u e
    by (auto simp: notAdmin_def requireAdmin_def)
  show ?thesis using a b c d by blast
qed

text \<open>
  C1 as stated fails: \<^verbatim>\<open>createBook\<close> called with no identity answers 403, where the
  claim has 401.
\<close>

theorem createBook_anonymous_counterexample:
  "\<forall>U. user (request None [] [] (JObj [((js ''name''), JStr (js ''Emma''))])) = None
   \<and> statusOf (fst (runGated U CreateBook sampleBookSchema sampleEnv 5000 idEmma
        (request None [] [] (JObj [((js ''name''), JStr (js ''Emma''))]))
        \<lparr>books = sampleBooks, bookRequests = sampleRequests\<rparr>)) = Some 403
   \<and> statusOf (fst (runGated U CreateBook sampleBookSchema sampleEnv 5000 idEmma
        (request None [] [] (JObj [((js ''name''), JStr (js ''Emma''))]))
        \<lparr>books = sampleBooks, bookRequests = sampleRequests\<rparr>)) \<noteq> Some 401"
  by (simp add: request_def createBook_def notAdmin_def forbidden_def statusOf_def)

text \<open>
  C1, witness: a reader who is no admin deletes a book and gets 403 with the data
  unchanged; \<^verbatim>\<open>requireAdmin\<close> answers 401 without an identity and 403 for the reader.
\<close>

theorem gated_writes_forbidden_witness:
  "\<forall>U. statusOf (fst (runGated U DeleteBook sampleBookSchema sampleEnv 5000 idEmma
        (request readerUser (js ''64b7f0c2a1d3e4f5a6b7c8e0'') [] (JObj []))
        \<lparr>books = sampleBooks, bookRequests = sampleRequests\<rparr>)) = Some 403
   \<and> snd (runGated U DeleteBook sampleBookSchema sampleEnv 5000 idEmma
        (request readerUser (js ''64b7f0c2a1d3e4f5a6b7c8e0'') [] (JObj []))
        \<lparr>books = sampleBooks, bookRequests = sampleRequests\<rparr>)
       = \<lparr>books = sampleBooks, bookRequests = sampleRequests\<rparr>
   \<and> (\<exists>b. requireAdmin U sampleEnv (request None (js ''64b7f0c2a1d3e4f5a6b7c8e0'') [] (JObj []))
            = Inl (Respond 401 b))
   \<and> (\<exists>b. requireAdmin U sampleEnv (request readerUser (js ''64b7f0c2a1d3e4f5a6b7c8e0'') [] (JObj []))
            = Inl (Respond 403 b))"
proof
  fix U
  let ?r = "request readerUser (js ''64b7f0c2a1d3e4f5a6b7c8e0'') [] (JObj [])"
  let ?a = "request None (js ''64b7f0c2a1d3e4f5a6b7c8e0'') [] (JObj [])"
  let ?s = "\<lparr>books = sampleBooks, bookRequests = sampleRequests\<rparr>"
  have na: "notAdmin U sampleEnv ?r" by code_simp
  have u0: "user ?a = None" by (simp add: request_def)
  have u1: "user ?r = Some \<lparr>email = Some (js ''reader@example.com'')\<rparr>
      \<and> email \<lparr>email = Some (js ''reader@example.com'')\<rparr> = Some (js ''reader@example.com'')
      \<and> (js ''reader@example.com'') \<noteq> [] \<and> \<not> isAdminEmail U sampleEnv (Some (js ''reader@example.com''))"
    using na by (simp add: request_def readerUser_def notAdmin_def)
  from gated_writes_forbidden[of U sampleEnv ?r DeleteBook sampleBookSchema 5000 idEmma ?s] na
  have p1: "statusOf (fst (runGated U DeleteBook sampleBookSchema sampleEnv 5000 idEmma ?r ?s)) = Some 403
      \<and> snd (runGated U DeleteBook sampleBookSchema sampleEnv 5000 idEmma ?r ?s) = ?s"
    by blast
  from gated_writes_forbidden[of U sampleEnv ?a DeleteBook sampleBookSchema 5000 idEmma ?s] u0
  have p2: "\<exists>b. requireAdmin U sampleEnv ?a = Inl (Respond 401 b)" by blast
  from gated_writes_forbidden[of U sampleEnv ?r DeleteBook sampleBookSchema 5000 idEmma ?s] u1
  have p3: "\<exists>b. requireAdmin U sampleEnv ?r = Inl (Respond 403 b)" by blast
  show "statusOf (fst (runGated U DeleteBook sampleBookSchema sampleEnv 5000 idEmma ?r ?s)) = Some 403
      \<and> snd (runGated U DeleteBook sampleBookSchema sampleEnv 5000 idEmma ?r ?s) = ?s
      \<and> (\<exists>b. requireAdmin U sampleEnv ?a = Inl (Respond 401 b))
      \<and> (\<exists>b. requireAdmin U sampleEnv ?r = Inl (Respond 403 b))"
    using p1 p2 p3 by blast
qed

subsection \<open>C2: who may change a stored request\<close>

text \<open>
  In the controller's request API (create, approve, reject, fulfill, upvote) a caller
  who does not pass the admin check changes no field of a stored request other than
  \<^verbatim>\<open>upvotes\<close> and the timestamp \<^verbatim>\<open>updatedAt\<close> that the upvote's update stamps, and
  removes no request; this holds for every schema of the model.
\<close>

lemma controller_changes_need_admin:
  assumes "notAdmin U env r" and "map_of coll k = Some d"
  shows "\<exists>d'. map_of (snd (runRequestOp U op S env now newId r coll)) k = Some d'
           \<and> (\<forall>f. f \<notin> {(js ''upvotes''), (js ''updatedAt'')} \<longrightarrow> map_of d' f = map_of d f)"
proof (cases op)
  case OpCreate
  with createBookRequest_preserves[OF assms(2)] show ?thesis by simp
next
  case OpApprove
  with assms show ?thesis by (simp add: approveBookRequest_def)
next
  case OpReject
  with assms show ?thesis by (simp add: rejectBookRequest_def)
next
  case OpFulfill
  with assms show ?thesis by (simp add: markRequestFulfilled_def)
next
  case OpUpvote
  have "{(js ''upvotes''), (js ''updatedAt'')} \<inter> set (paths S) \<subseteq> {(js ''upvotes''), (js ''updatedAt'')}" by blast
  from upvote_other_fields[OF assms(2) this] OpUpvote show ?thesis by simp
qed

text \<open>
  For instance, a reader who is no admin upvotes a stored request: the request is still
  there and differs at most in \<^verbatim>\<open>upvotes\<close> and \<^verbatim>\<open>updatedAt\<close>.
\<close>

lemma controller_changes_need_admin_example:
  "notAdmin U sampleEnv (request readerUser idDune [] (JObj []))
   \<and> map_of sampleRequests idDune
       = Some (requestOf (js ''Dune'') (js ''Frank Herbert'') (js ''reader@example.com'') (js ''rare edition'') 1000)
   \<and> (\<exists>d'. map_of (snd (runRequestOp U OpUpvote bookRequestSchema sampleEnv 5000 idEmma
                (request readerUser idDune [] (JObj [])) sampleRequests)) idDune = Some d'
          \<and> (\<forall>f. f \<notin> {(js ''upvotes''), (js ''updatedAt'')} \<longrightarrow>
                 map_of d' f = map_of (requestOf (js ''Dune'') (js ''Frank Herbert'') (js ''reader@example.com'')
                                         (js ''rare edition'') 1000) f))"
proof -
  have na: "notAdmin U sampleEnv (request readerUser idDune [] (JObj []))" by code_simp
  have st: "map_of sampleRequests idDune
       = Some (requestOf (js ''Dune'') (js ''Frank Herbert'') (js ''reader@example.com'') (js ''rare edition'') 1000)"
    by (simp add: sampleRequests_def)
  from controller_changes_need_admin[OF na st, of OpUpvote bookRequestSchema 5000 idEmma] na st
  show ?thesis by blast
qed

text \<open>
  C2 fails on the code in the second request API, whose router checks no identity:
  \<^verbatim>\<open>PATCH /book-requests/:id/status\<close> called with no identity turns a pending request
  into an approved one, \<^verbatim>\<open>PUT /book-requests/:id\<close> into a rejected one, and
  \<^verbatim>\<open>DELETE /book-requests/:id\<close> removes it.
\<close>

theorem router_patch_status_ungated:
  "\<forall>U. user (request None idDune [] (JObj [((js ''status''), JStr (js ''approved''))])) = None
   \<and> notAdmin U sampleEnv (request None idDune [] (JObj [((js ''status''), JStr (js ''approved''))]))
   \<and> Option.bind (map_of sampleRequests idDune) (\<lambda>d. map_of d (js ''status''))
       = Some (JStr (js ''pending''))
   \<and> Option.bind (map_of (snd (router_patch_status bookRequestSchema 5000
         (request None idDune [] (JObj [((js ''status''), JStr (js ''approved''))])) sampleRequests)) idDune)
        (\<lambda>d. map_of d (js ''status'')) = Some (JStr (js ''approved''))
   \<and> Option.bind (map_of (snd (router_put bookRequestSchema 5000
         (request None idDune [] (JObj [((js ''status''), JStr (js ''rejected'')), ((js ''bookName''), JStr (js ''Other''))]))
         sampleRequests)) idDune)
        (\<lambda>d. map_of d (js ''status'')) = Some (JStr (js ''rejected''))
   \<and> map_of (snd (router_delete (request None idDune [] (JObj [])) sampleRequests)) idDune = None"
  by (rule allI) code_simp

subsection \<open>C3: membership in the admin set\<close>

text \<open>
  C3, as the code has it. \<^verbatim>\<open>isAdminEmail(email)\<close> is true exactly when the lowercased
  email (it is not trimmed) is a member of the set obtained from the environment value
  by splitting on commas, trimming and lowercasing each entry and dropping the empty
  ones; for \<^verbatim>\<open>undefined\<close> it is false; and when the environment value is empty or
  unset the set is empty and the check is false for every email.
\<close>

theorem isAdminEmail_membership:
  "isAdminEmail U env (Some e) = (toLowerCase U e \<in> adminSet U (adminEnv env))
   \<and> isAdminEmail U env None = False
   \<and> (adminEnv env = [] \<longrightarrow> adminSet U (adminEnv env) = {} \<and> (\<forall>m. \<not> isAdminEmail U env m))"
proof -
  have a: "set (getAdminEmails U env) = adminSet U (adminEnv env)" by (rule adminSet_eq)
  have b: "[] \<notin> adminSet U v" for v by (simp add: adminSet_def)
  have c: "isAdminEmail U env (Some e) = (toLowerCase U e \<in> adminSet U (adminEnv env))"
    using b[of "adminEnv env"] by (auto simp: isAdminEmail_def a[symmetric] toLowerCase_def)
  have d: "adminEnv env = [] \<Longrightarrow> adminSet U (adminEnv env) = {}"
    by (auto simp: adminSet_def toLowerCase_def trim_def)
  have e: "adminEnv env = [] \<Longrightarrow> \<not> isAdminEmail U env m" for m
    by (auto simp: isAdminEmail_def getAdminEmails_def split: option.splits)
  show ?thesis using c d e by (simp add: isAdminEmail_def)
qed

text \<open>
  C3 as stated fails: an email with a leading space is, once trimmed and lowercased, a
  member of the admin set, and \<^verbatim>\<open>isAdminEmail\<close> is false for it.
\<close>

theorem isAdminEmail_untrimmed_counterexample:
  "\<forall>U. toLowerCase U (trim (js '' Admin@EasyReads.com'')) \<in> adminSet U (adminEnv sampleEnv)
       \<and> \<not> isAdminEmail U sampleEnv (Some (js '' Admin@EasyReads.com''))"
proof
  fix U
  have "toLowerCase U (trim (js '' Admin@EasyReads.com'')) \<in> set (getAdminEmails U sampleEnv)"
    by code_simp
  moreover have "\<not> isAdminEmail U sampleEnv (Some (js '' Admin@EasyReads.com''))"
    by code_simp
  ultimately show "toLowerCase U (trim (js '' Admin@EasyReads.com'')) \<in> adminSet U (adminEnv sampleEnv)
       \<and> \<not> isAdminEmail U sampleEnv (Some (js '' Admin@EasyReads.com''))"
    by (simp add: adminSet_eq)
qed

text \<open>
  C3, witness: with no admin emails configured nobody is an admin; with the sample
  configuration the admin's address is accepted in any letter case.
\<close>

theorem isAdminEmail_membership_witness:
  "\<forall>U. adminEnv \<lparr>VITE_ADMIN_EMAILS = None, ADMIN_EMAILS = Some [], OPENAI_API_KEY = None\<rparr> = []
   \<and> \<not> isAdminEmail U \<lparr>VITE_ADMIN_EMAILS = None, ADMIN_EMAILS = Some [], OPENAI_API_KEY = None\<rparr>
         (Some (js ''admin@easyreads.com''))
   \<and> isAdminEmail U sampleEnv (Some (js ''Admin@EasyReads.COM''))"
proof
  fix U
  let ?e = "\<lparr>VITE_ADMIN_EMAILS = None, ADMIN_EMAILS = Some [], OPENAI_API_KEY = None\<rparr>"
  have a: "adminEnv ?e = []" by (simp add: adminEnv_def orElse_def)
  have "toLowerCase U (js ''Admin@EasyReads.COM'') \<in> set (getAdminEmails U sampleEnv)"
    by code_simp
  then have m: "toLowerCase U (js ''Admin@EasyReads.COM'') \<in> adminSet U (adminEnv sampleEnv)"
    by (simp add: adminSet_eq)
  from isAdminEmail_membership[of U ?e "js ''admin@easyreads.com''"] a
  have n: "\<not> isAdminEmail U ?e (Some (js ''admin@easyreads.com''))" by blast
  from isAdminEmail_membership[of U sampleEnv "js ''Admin@EasyReads.COM''"] m
  have y: "isAdminEmail U sampleEnv (Some (js ''Admin@EasyReads.COM''))" by blast
  from a n y show "adminEnv ?e = []
      \<and> \<not> isAdminEmail U ?e (Some (js ''admin@easyreads.com''))
      \<and> isAdminEmail U sampleEnv (Some (js ''Admin@EasyReads.COM''))"
    by blast
qed

subsection \<open>C4: clamped pagination\<close>

text \<open>
  Every list endpoint but two clamps: a limit it hands to the query lies between 1 and
  100, a page number is at least 1, and a numeric \<^verbatim>\<open>limit\<close> parameter \<open>n\<close> becomes
  \<open>min 100 (max 1 n)\<close>. The two are \<^verbatim>\<open>searchBooks\<close> and \<^verbatim>\<open>getPopularRequests\<close>.
\<close>

lemma list_endpoints_clamp:
  "(ep \<noteq> SearchBooks \<and> ep \<noteq> GetPopularRequests \<and> limitArg ep r = Some l
      \<longrightarrow> 1 \<le> l \<and> l \<le> 100)
   \<and> (pageArg ep r = Some p \<longrightarrow> 1 \<le> p)
   \<and> (ep \<noteq> SearchBooks \<and> ep \<noteq> GetPopularRequests
        \<and> parseIntOr 10 (queryParam r (js ''limit'')) = Some n
      \<longrightarrow> limitArg ep r = Some (min 100 (max 1 n)))"
  by (cases ep) (auto simp: clampedPaging_def mathMax_def mathMin_def Let_def)

text \<open>
  C4 fails on the code at the text search: \<^verbatim>\<open>GET /search/books?q=dune&limit=500\<close> hands
  the limit 500 to the query, where \<^verbatim>\<open>getTrendingBooks\<close>, which also reads only
  \<^verbatim>\<open>limit\<close>, hands on 100.
\<close>

theorem searchBooks_limit_unclamped:
  "searchBooks (request None [] [((js ''q''), (js ''dune'')), ((js ''limit''), (js ''500''))] (JObj []))
     = Inr ((js ''dune''), Some 500)
   \<and> limitArg SearchBooks (request None [] [((js ''q''), (js ''dune'')), ((js ''limit''), (js ''500''))] (JObj []))
     = Some 500
   \<and> limitArg GetTrendingBooks (request None [] [((js ''limit''), (js ''500''))] (JObj [])) = Some 100
   \<and> pageArg GetAllBooks (request None [] [((js ''page''), (js ''0''))] (JObj [])) = Some 1"
  by code_simp

subsection \<open>C5: what a transition stores\<close>

text \<open>
  What \<^verbatim>\<open>doc.save()\<close> can change: of the stored documents only the one saved, and of
  that one only declared paths and \<^verbatim>\<open>updatedAt\<close>.
\<close>

lemma save_other_fields:
  assumes res: "save S now key d as coll = Inr (d2, coll')"
      and loaded: "map_of coll key = Some d"
      and stored: "map_of coll k = Some e"
  shows "\<exists>e'. map_of coll' k = Some e'
           \<and> (\<forall>f. f \<notin> set (paths S) \<union> {(js ''updatedAt'')} \<longrightarrow> map_of e' f = map_of e f)"
proof -
  from res obtain d1 where d1: "assignAll S as d = Some d1"
    by (auto simp: save_def split: option.splits)
  have keep: "f \<notin> set (paths S) \<Longrightarrow> map_of d1 f = map_of d f" for f
    using assignAll_undeclared[OF d1] .
  show ?thesis
  proof (cases "d1 = d")
    case True
    with res d1 have "coll' = coll" by (auto simp: save_def split: if_splits)
    with stored show ?thesis by simp
  next
    case False
    with res d1 have c': "coll' = AList.update key d2 coll"
        and d2: "d2 = (if timestamps S then AList.update (js ''updatedAt'') (JDate now) d1 else d1)"
      by (auto simp: save_def Let_def split: if_splits)
    show ?thesis
    proof (cases "k = key")
      case True
      with loaded stored have "e = d" by simp
      with c' d2 True keep show ?thesis by (auto simp: update_conv')
    next
      case False
      with c' stored show ?thesis by (simp add: update_conv')
    qed
  qed
qed

lemma approve_writes:
  "snd (approveBookRequest U S env now r coll) = coll
   \<or> (\<exists>i d as d2. map_of coll (oid i) = Some d
          \<and> save S now (oid i) d as coll = Inr (d2, snd (approveBookRequest U S env now r coll)))"
  unfolding approveBookRequest_def findById_def
  by (auto split: textual.split option.split sum.split prod.split)

lemma reject_writes:
  "snd (rejectBookRequest U S env now r coll) = coll
   \<or> (\<exists>i d as d2. map_of coll (oid i) = Some d
          \<and> save S now (oid i) d as coll = Inr (d2, snd (rejectBookRequest U S env now r coll)))"
  unfolding rejectBookRequest_def findById_def
  by (auto split: textual.split option.split sum.split prod.split)

text \<open>
  Under the schema of the sources \<^verbatim>\<open>markRequestFulfilled\<close> never writes: the value
  \<^verbatim>\<open>fulfilled\<close> is not in the \<^verbatim>\<open>enum\<close> of \<^verbatim>\<open>status\<close>, so the save fails validation.
\<close>

lemma fulfill_never_writes:
  "snd (markRequestFulfilled U bookRequestSchema env now r coll) = coll
   \<and> statusOf (fst (markRequestFulfilled U bookRequestSchema env now r coll)) \<noteq> Some 200"
proof -
  have s: "save bookRequestSchema now key d [((js ''status''), JStr (js ''fulfilled''))] coll
             = Inl ValidationError" for key d
    by (simp add: save_def bookRequestSchema_def validate_def update_conv')
  show ?thesis
    unfolding markRequestFulfilled_def s
    by (auto simp: forbidden_def failure_def statusOf_def findById_def
        split: option.split sum.split)
qed

text \<open>
  Under the schema of the sources no transition stores \<^verbatim>\<open>respondedBy\<close> or
  \<^verbatim>\<open>respondedAt\<close>: the schema declares neither path.
\<close>

lemma transitions_never_stamp:
  assumes stored: "map_of coll k = Some e"
      and f: "f = (js ''respondedBy'') \<or> f = (js ''respondedAt'')"
      and op: "op = OpApprove \<or> op = OpReject \<or> op = OpFulfill"
  shows "\<exists>e'. map_of (snd (runRequestOp U op bookRequestSchema env now newId r coll)) k = Some e'
           \<and> map_of e' f = map_of e f"
proof -
  have nf: "f \<notin> set (paths bookRequestSchema) \<union> {(js ''updatedAt'')}"
    using f by (auto simp: bookRequestSchema_def)
  have sv: "\<exists>e'. map_of coll' k = Some e' \<and> map_of e' f = map_of e f"
    if "coll' = coll \<or> (\<exists>i d as d2. map_of coll (oid i) = Some d
          \<and> save bookRequestSchema now (oid i) d as coll = Inr (d2, coll'))" for coll'
    using that
  proof
    assume "coll' = coll"
    with stored show ?thesis by simp
  next
    assume "\<exists>i d as d2. map_of coll (oid i) = Some d
          \<and> save bookRequestSchema now (oid i) d as coll = Inr (d2, coll')"
    then obtain i d as d2 where l: "map_of coll (oid i) = Some d"
        and s: "save bookRequestSchema now (oid i) d as coll = Inr (d2, coll')"
      by blast
    from save_other_fields[OF s l stored] nf show ?thesis by blast
  qed
  from op show ?thesis
  proof (elim disjE)
    assume "op = OpApprove"
    with sv[OF approve_writes[of U bookRequestSchema env now r coll]] show ?thesis by simp
  next
    assume "op = OpReject"
    with sv[OF reject_writes[of U bookRequestSchema env now r coll]] show ?thesis by simp
  next
    assume "op = OpFulfill"
    with fulfill_never_writes[of U env now r coll] stored show ?thesis by simp
  qed
qed

text \<open>
  C5 fails on the code. An admin approves a stored pending request: the answer is 200
  and the stored status is \<^verbatim>\<open>approved\<close>, but neither \<^verbatim>\<open>respondedBy\<close> nor \<^verbatim>\<open>respondedAt\<close>
  is stored, since \<^verbatim>\<open>BookRequestSchema.js\<close> declares neither. The same admin marks the
  request fulfilled: the save is refused (\<^verbatim>\<open>fulfilled\<close> is not a value of the schema's
  \<^verbatim>\<open>status\<close>), the error goes to \<^verbatim>\<open>next\<close>, and the request is unchanged.
\<close>

theorem approve_does_not_stamp:
  "\<forall>U. (case approveBookRequest U bookRequestSchema sampleEnv 5000
           (request adminUser idDune [] (JObj [])) sampleRequests of
      (res, coll') \<Rightarrow>
        statusOf res = Some 200
        \<and> Option.bind (map_of coll' idDune) (\<lambda>d. map_of d (js ''status'')) = Some (JStr (js ''approved''))
        \<and> Option.bind (map_of coll' idDune) (\<lambda>d. map_of d (js ''respondedBy'')) = None
        \<and> Option.bind (map_of coll' idDune) (\<lambda>d. map_of d (js ''respondedAt'')) = None)
   \<and> markRequestFulfilled U bookRequestSchema sampleEnv 5000
        (request adminUser idDune [] (JObj [])) sampleRequests
      = (Next ValidationError, sampleRequests)"
  by (rule allI) code_simp

subsection \<open>C6: a rejection needs a reason\<close>

lemma reject_assigns:
  "assignAll bookRequestSchema
     ([((js ''status''), JStr (js ''rejected''))] @ respondedBy r
        @ [((js ''respondedAt''), JDate now), ((js ''adminNotes''), JStr n)]) d
   = Some (AList.update (js ''adminNotes'') (JStr n) (AList.update (js ''status'') (JStr (js ''rejected'')) d))"
proof -
  have a: "assignAll bookRequestSchema [((js ''status''), JStr (js ''rejected''))] d
      = Some (AList.update (js ''status'') (JStr (js ''rejected'')) d)"
    by (simp add: bookRequestSchema_def)
  have b: "assignAll bookRequestSchema [((js ''respondedAt''), JDate now), ((js ''adminNotes''), JStr n)] e
      = Some (AList.update (js ''adminNotes'') (JStr n) e)" for e
    by (simp add: bookRequestSchema_def)
  show ?thesis by (simp only: assignAll_append a respondedBy_undeclared b option.case)
qed

lemma validate_rejected:
  assumes "validate bookRequestSchema d"
  shows "validate bookRequestSchema
           (AList.update (js ''adminNotes'') (JStr n) (AList.update (js ''status'') (JStr (js ''rejected'')) d))"
  using assms by (simp add: validate_def bookRequestSchema_def update_conv')

text \<open>
  C6, as the code has it. An admin rejects a request (route parameter \<open>i\<close>). If
  \<^verbatim>\<open>adminNotes\<close> is missing, falsy or a string of white space only, the answer is 400 and
  the collection is unchanged. If it is a string with other characters, \<open>i\<close> is an
  ObjectId and the collection holds a request under it (one that satisfies the
  validators of its schema, as every stored request does), the answer is 200 and the
  stored request has status \<^verbatim>\<open>rejected\<close> and the trimmed reason as \<^verbatim>\<open>adminNotes\<close>. If it is
  any other value (a number but 0, \<^verbatim>\<open>true\<close>, an array, an object) and \<open>i\<close> is an ObjectId,
  the call of \<^verbatim>\<open>trim\<close> throws: the error goes to \<^verbatim>\<open>next\<close> and the collection is unchanged.
\<close>

theorem reject_requires_reason:
  assumes admin: "\<not> notAdmin U env r" and i: "map_of (params r) (js ''id'') = Some i"
  shows "(\<not> truthy (field (body r) (js ''adminNotes''))
           \<or> (\<exists>s. field (body r) (js ''adminNotes'') = Some (JStr s) \<and> trim s = [])
         \<longrightarrow> statusOf (fst (rejectBookRequest U bookRequestSchema env now r coll)) = Some 400
             \<and> snd (rejectBookRequest U bookRequestSchema env now r coll) = coll)
       \<and> (\<forall>s d. field (body r) (js ''adminNotes'') = Some (JStr s) \<and> trim s \<noteq> []
              \<and> validObjectId i \<and> map_of coll (oid i) = Some d \<and> validate bookRequestSchema d
         \<longrightarrow> statusOf (fst (rejectBookRequest U bookRequestSchema env now r coll)) = Some 200
             \<and> (\<exists>d'. map_of (snd (rejectBookRequest U bookRequestSchema env now r coll)) (oid i)
                        = Some d'
                    \<and> map_of d' (js ''status'') = Some (JStr (js ''rejected''))
                    \<and> map_of d' (js ''adminNotes'') = Some (JStr (trim s))))
       \<and> (truthy (field (body r) (js ''adminNotes''))
            \<and> (\<forall>s. field (body r) (js ''adminNotes'') \<noteq> Some (JStr s)) \<and> validObjectId i
         \<longrightarrow> rejectBookRequest U bookRequestSchema env now r coll = (Next TypeError, coll))"
proof (intro conjI impI allI)
  assume a: "\<not> truthy (field (body r) (js ''adminNotes''))
           \<or> (\<exists>s. field (body r) (js ''adminNotes'') = Some (JStr s) \<and> trim s = [])"
  then have t: "textOf (field (body r) (js ''adminNotes'')) = Absent
      \<or> (\<exists>s. textOf (field (body r) (js ''adminNotes'')) = Text s \<and> trim s = [])"
    by (auto simp: textOf_def)
  from t admin i
  show "statusOf (fst (rejectBookRequest U bookRequestSchema env now r coll)) = Some 400"
    by (auto simp: rejectBookRequest_def failure_def statusOf_def)
  from t admin i show "snd (rejectBookRequest U bookRequestSchema env now r coll) = coll"
    by (auto simp: rejectBookRequest_def failure_def statusOf_def)
next
  fix s d
  assume h: "field (body r) (js ''adminNotes'') = Some (JStr s) \<and> trim s \<noteq> []
              \<and> validObjectId i \<and> map_of coll (oid i) = Some d \<and> validate bookRequestSchema d"
  then have s0: "s \<noteq> []" by (auto simp: trim_def)
  with h have t: "textOf (field (body r) (js ''adminNotes'')) = Text s" by (simp add: textOf_def)
  define d1 where
    "d1 = AList.update (js ''adminNotes'') (JStr (trim s)) (AList.update (js ''status'') (JStr (js ''rejected'')) d)"
  have f1: "map_of d1 (js ''status'') = Some (JStr (js ''rejected''))"
    and f2: "map_of d1 (js ''adminNotes'') = Some (JStr (trim s))"
    by (simp_all add: d1_def update_conv')
  have v: "validate bookRequestSchema d1" unfolding d1_def using h by (simp add: validate_rejected)
  have sv: "save bookRequestSchema now (oid i) d
              ([((js ''status''), JStr (js ''rejected''))] @ respondedBy r
                @ [((js ''respondedAt''), JDate now), ((js ''adminNotes''), JStr (trim s))]) coll
            = (if d1 = d then Inr (d, coll)
               else Inr (AList.update (js ''updatedAt'') (JDate now) d1,
                         AList.update (oid i) (AList.update (js ''updatedAt'') (JDate now) d1) coll))"
    unfolding save_def reject_assigns using v
    by (simp add: d1_def[symmetric] Let_def schema_timestamps)
  have rj: "rejectBookRequest U bookRequestSchema env now r coll =
      (case save bookRequestSchema now (oid i) d
              ([((js ''status''), JStr (js ''rejected''))] @ respondedBy r
                @ [((js ''respondedAt''), JDate now), ((js ''adminNotes''), JStr (trim s))]) coll of
         Inl e \<Rightarrow> (Next e, coll)
       | Inr (saved, coll') \<Rightarrow>
           (success 200 (docJson (oid i, saved)) (js ''Book request rejected''), coll'))"
    using admin i h t by (simp add: rejectBookRequest_def findById_def)
  show "statusOf (fst (rejectBookRequest U bookRequestSchema env now r coll)) = Some 200"
    unfolding rj sv by (simp add: success_def statusOf_def)
  show "\<exists>d'. map_of (snd (rejectBookRequest U bookRequestSchema env now r coll)) (oid i) = Some d'
          \<and> map_of d' (js ''status'') = Some (JStr (js ''rejected''))
          \<and> map_of d' (js ''adminNotes'') = Some (JStr (trim s))"
  proof (cases "d1 = d")
    case True
    with rj sv h f1 f2 show ?thesis by simp
  next
    case False
    with rj sv f1 f2 show ?thesis by (simp add: update_conv')
  qed
next
  assume n: "truthy (field (body r) (js ''adminNotes''))
      \<and> (\<forall>s. field (body r) (js ''adminNotes'') \<noteq> Some (JStr s)) \<and> validObjectId i"
  then have "textOf (field (body r) (js ''adminNotes'')) = NotText"
    by (auto simp: textOf_def split: option.splits json.splits)
  with n admin i show "rejectBookRequest U bookRequestSchema env now r coll = (Next TypeError, coll)"
    by (simp add: rejectBookRequest_def)
qed

text \<open>
  C6 as stated fails: with the number 5 as \<^verbatim>\<open>adminNotes\<close>, which is neither missing nor
  white space, the sample admin's rejection is answered by no 400 and the request is
  not rejected: the call of \<^verbatim>\<open>trim\<close> throws, and the request stays pending.
\<close>

theorem reject_number_reason_counterexample:
  "\<forall>U. rejectBookRequest U bookRequestSchema sampleEnv 5000
         (request adminUser idDune [] (JObj [((js ''adminNotes''), JNum 5)])) sampleRequests
       = (Next TypeError, sampleRequests)
     \<and> statusOf (Next TypeError) = None
     \<and> Option.bind (map_of sampleRequests idDune) (\<lambda>d. map_of d (js ''status''))
         = Some (JStr (js ''pending''))"
  by (rule allI) code_simp

text \<open>
  C6, witness: the sample admin rejects a stored request, first with a reason of blanks
  only (400, nothing changes), then with a reason (200, the request is rejected and
  holds the trimmed reason), then with an array as the reason (the error goes to
  \<^verbatim>\<open>next\<close>, nothing changes).
\<close>

theorem reject_requires_reason_witness:
  "\<forall>U. statusOf (fst (rejectBookRequest U bookRequestSchema sampleEnv 5000
       (request adminUser idDune [] (JObj [((js ''adminNotes''), JStr (js ''   ''))])) sampleRequests))
     = Some 400
   \<and> snd (rejectBookRequest U bookRequestSchema sampleEnv 5000
       (request adminUser idDune [] (JObj [((js ''adminNotes''), JStr (js ''   ''))])) sampleRequests)
     = sampleRequests
   \<and> statusOf (fst (rejectBookRequest U bookRequestSchema sampleEnv 5000
       (request adminUser idDune [] (JObj [((js ''adminNotes''), JStr (js ''  out of print ''))]))
       sampleRequests)) = Some 200
   \<and> (\<exists>d'. map_of (snd (rejectBookRequest U bookRequestSchema sampleEnv 5000
              (request adminUser idDune [] (JObj [((js ''adminNotes''), JStr (js ''  out of print ''))]))
              sampleRequests)) (oid idDune) = Some d'
          \<and> map_of d' (js ''status'') = Some (JStr (js ''rejected''))
          \<and> map_of d' (js ''adminNotes'') = Some (JStr (js ''out of print'')))
   \<and> rejectBookRequest U bookRequestSchema sampleEnv 5000
       (request adminUser idDune [] (JObj [((js ''adminNotes''), JArr [JStr (js ''out of print'')])]))
       sampleRequests = (Next TypeError, sampleRequests)"
proof
  fix U
  let ?blank = "request adminUser idDune [] (JObj [((js ''adminNotes''), JStr (js ''   ''))])"
  let ?given = "request adminUser idDune [] (JObj [((js ''adminNotes''), JStr (js ''  out of print ''))])"
  let ?d = "requestOf (js ''Dune'') (js ''Frank Herbert'') (js ''reader@example.com'') (js ''rare edition'') 1000"
  have a1: "\<not> notAdmin U sampleEnv ?blank" by code_simp
  have a2: "\<not> notAdmin U sampleEnv ?given" by code_simp
  have i1: "map_of (params ?blank) (js ''id'') = Some idDune" by (simp add: request_def)
  have i2: "map_of (params ?given) (js ''id'') = Some idDune" by (simp add: request_def)
  have b: "field (body ?blank) (js ''adminNotes'') = Some (JStr (js ''   '')) \<and> trim (js ''   '') = []"
    by code_simp
  have g: "field (body ?given) (js ''adminNotes'') = Some (JStr (js ''  out of print ''))
      \<and> trim (js ''  out of print '') \<noteq> []
      \<and> validObjectId idDune \<and> map_of sampleRequests (oid idDune) = Some ?d
      \<and> validate bookRequestSchema ?d"
    by code_simp
  have tr: "trim (js ''  out of print '') = (js ''out of print'')" by code_simp
  let ?other = "request adminUser idDune [] (JObj [((js ''adminNotes''), JArr [JStr (js ''out of print'')])])"
  have a3: "\<not> notAdmin U sampleEnv ?other" by code_simp
  have i3: "map_of (params ?other) (js ''id'') = Some idDune" by (simp add: request_def)
  have o: "truthy (field (body ?other) (js ''adminNotes''))
      \<and> (\<forall>s. field (body ?other) (js ''adminNotes'') \<noteq> Some (JStr s)) \<and> validObjectId idDune"
  proof -
    have "field (body ?other) (js ''adminNotes'') = Some (JArr [JStr (js ''out of print'')])"
      by (simp add: request_def field_def)
    moreover have "validObjectId idDune" by code_simp
    ultimately show ?thesis by simp
  qed
  from reject_requires_reason[OF a3 i3, of 5000 sampleRequests] o
  have p3: "rejectBookRequest U bookRequestSchema sampleEnv 5000 ?other sampleRequests
        = (Next TypeError, sampleRequests)"
    by blast
  from reject_requires_reason[OF a1 i1, of 5000 sampleRequests] b
  have p1: "statusOf (fst (rejectBookRequest U bookRequestSchema sampleEnv 5000 ?blank sampleRequests))
        = Some 400
      \<and> snd (rejectBookRequest U bookRequestSchema sampleEnv 5000 ?blank sampleRequests)
        = sampleRequests"
    by blast
  from reject_requires_reason[OF a2 i2, of 5000 sampleRequests] g
  have p2: "statusOf (fst (rejectBookRequest U bookRequestSchema sampleEnv 5000 ?given sampleRequests))
        = Some 200
      \<and> (\<exists>d'. map_of (snd (rejectBookRequest U bookRequestSchema sampleEnv 5000 ?given
                  sampleRequests)) (oid idDune) = Some d'
             \<and> map_of d' (js ''status'') = Some (JStr (js ''rejected''))
             \<and> map_of d' (js ''adminNotes'') = Some (JStr (trim (js ''  out of print ''))))"
    by blast
  from p1 p2 p3 show "statusOf (fst (rejectBookRequest U bookRequestSchema sampleEnv 5000 ?blank sampleRequests))
        = Some 400
      \<and> snd (rejectBookRequest U bookRequestSchema sampleEnv 5000 ?blank sampleRequests)
        = sampleRequests
      \<and> statusOf (fst (rejectBookRequest U bookRequestSchema sampleEnv 5000 ?given sampleRequests))
        = Some 200
      \<and> (\<exists>d'. map_of (snd (rejectBookRequest U bookRequestSchema sampleEnv 5000 ?given
                  sampleRequests)) (oid idDune) = Some d'
             \<and> map_of d' (js ''status'') = Some (JStr (js ''rejected''))
             \<and> map_of d' (js ''adminNotes'') = Some (JStr (js ''out of print'')))
      \<and> rejectBookRequest U bookRequestSchema sampleEnv 5000 ?other sampleRequests
        = (Next TypeError, sampleRequests)"
    unfolding tr by blast
qed

subsection \<open>C7: a malformed requester email\<close>

text \<open>
  C7, as the code has it. \<^verbatim>\<open>createBookRequest\<close> creates no document when
  \<^verbatim>\<open>requesterEmail\<close> is not a string that matches the email pattern, whatever the
  schema: it answers 400, or a call of \<^verbatim>\<open>trim\<close> throws and the \<^verbatim>\<open>TypeError\<close> goes to
  \<^verbatim>\<open>next\<close>; and it answers 400 when \<^verbatim>\<open>title\<close>, \<^verbatim>\<open>author\<close> and \<^verbatim>\<open>requesterEmail\<close> are each
  a string or falsy. The statement is about this endpoint only.
\<close>

theorem createBookRequest_rejects_bad_email:
  assumes "\<forall>s. field (body r) (js ''requesterEmail'') = Some (JStr s) \<longrightarrow> \<not> matches emailRegex s"
  shows "snd (createBookRequest U S now newId r coll) = coll
       \<and> (statusOf (fst (createBookRequest U S now newId r coll)) = Some 400
          \<or> fst (createBookRequest U S now newId r coll) = Next TypeError)
       \<and> (textOf (field (body r) (js ''title'')) \<noteq> NotText
          \<and> textOf (field (body r) (js ''author'')) \<noteq> NotText
          \<and> textOf (field (body r) (js ''requesterEmail'')) \<noteq> NotText
          \<longrightarrow> statusOf (fst (createBookRequest U S now newId r coll)) = Some 400)"
proof -
  have e: "textOf (field (body r) (js ''requesterEmail'')) = Text s \<Longrightarrow> \<not> matches emailRegex s" for s
    using assms by (auto simp: textOf_def split: if_splits option.splits json.splits)
  have a: "snd (createBookRequest U S now newId r coll) = coll"
    unfolding createBookRequest_def
    by (auto simp: failure_def statusOf_def dest: e split: textual.split)
  have b: "statusOf (fst (createBookRequest U S now newId r coll)) = Some 400
          \<or> fst (createBookRequest U S now newId r coll) = Next TypeError"
    unfolding createBookRequest_def
    by (auto simp: failure_def statusOf_def dest: e split: textual.split)
  have c: "textOf (field (body r) (js ''title'')) \<noteq> NotText
          \<and> textOf (field (body r) (js ''author'')) \<noteq> NotText
          \<and> textOf (field (body r) (js ''requesterEmail'')) \<noteq> NotText
          \<longrightarrow> statusOf (fst (createBookRequest U S now newId r coll)) = Some 400"
    unfolding createBookRequest_def
    by (auto simp: failure_def statusOf_def dest: e split: textual.split)
  from a b c show ?thesis by blast
qed

text \<open>
  C7 as stated fails. At \<^verbatim>\<open>createBookRequest\<close>, a request with the requester email
  \<^verbatim>\<open>not-an-email\<close> and the number 5 as its title gets no 400: the call of \<^verbatim>\<open>trim\<close> on the
  title throws. At the second creation endpoint, \<^verbatim>\<open>POST /book-requests\<close>, a request with a
  requester (\<^verbatim>\<open>requestedBy\<close>, and \<^verbatim>\<open>requesterEmail\<close> as well) that does not match the
  pattern gets 201 and is stored.
\<close>

theorem router_post_counterexample:
  "\<forall>U. \<not> matches emailRegex (js ''not-an-email'')
   \<and> createBookRequest U bookRequestSchema 7000 (js ''64b7f0c2a1d3e4f5a6b7c8db'')
       (request None [] []
          (JObj [((js ''title''), JNum 5), ((js ''author''), JStr (js ''James Joyce'')),
                 ((js ''requesterEmail''), JStr (js ''not-an-email''))])) []
     = (Next TypeError, [])
   \<and> statusOf (Next TypeError) \<noteq> Some 400
   \<and> router_post bookRequestSchema 7000 (js ''64b7f0c2a1d3e4f5a6b7c8db'')
       (request None [] []
          (JObj [((js ''bookName''), JStr (js ''Ulysses'')), ((js ''author''), JStr (js ''James Joyce'')),
                 ((js ''requestedBy''), JStr (js ''not-an-email'')), ((js ''requestedByUid''), JStr (js ''uid-2'')),
                 ((js ''requesterEmail''), JStr (js ''not-an-email''))])) []
     = (Respond 201 (JObj
          [((js ''_id''), JStr (js ''64b7f0c2a1d3e4f5a6b7c8db'')),
           ((js ''bookName''), JStr (js ''Ulysses'')), ((js ''author''), JStr (js ''James Joyce'')),
           ((js ''requestedBy''), JStr (js ''not-an-email'')), ((js ''requestedByUid''), JStr (js ''uid-2'')),
           ((js ''status''), JStr (js ''pending'')), ((js ''requestedAt''), JDate 7000),
           ((js ''updatedAt''), JDate 7000), ((js ''createdAt''), JDate 7000)]),
        [((js ''64b7f0c2a1d3e4f5a6b7c8db''),
          [((js ''bookName''), JStr (js ''Ulysses'')), ((js ''author''), JStr (js ''James Joyce'')),
           ((js ''requestedBy''), JStr (js ''not-an-email'')), ((js ''requestedByUid''), JStr (js ''uid-2'')),
           ((js ''status''), JStr (js ''pending'')), ((js ''requestedAt''), JDate 7000),
           ((js ''updatedAt''), JDate 7000), ((js ''createdAt''), JDate 7000)])])"
  by (rule allI) code_simp

text \<open>
  C7, witness: \<^verbatim>\<open>createBookRequest\<close> with title, author and the requester email
  \<^verbatim>\<open>not-an-email\<close> answers 400 and leaves the collection as it was.
\<close>

theorem createBookRequest_rejects_bad_email_witness:
  "\<forall>U. snd (createBookRequest U bookRequestSchema 7000 (js ''64b7f0c2a1d3e4f5a6b7c8db'')
          (request None [] []
             (JObj [((js ''title''), JStr (js ''Ulysses'')), ((js ''author''), JStr (js ''James Joyce'')),
                    ((js ''requesterEmail''), JStr (js ''not-an-email''))])) sampleRequests)
     = sampleRequests
   \<and> statusOf (fst (createBookRequest U bookRequestSchema 7000 (js ''64b7f0c2a1d3e4f5a6b7c8db'')
          (request None [] []
             (JObj [((js ''title''), JStr (js ''Ulysses'')), ((js ''author''), JStr (js ''James Joyce'')),
                    ((js ''requesterEmail''), JStr (js ''not-an-email''))])) sampleRequests))
     = Some 400"
proof
  fix U
  let ?r = "request None [] []
             (JObj [((js ''title''), JStr (js ''Ulysses'')), ((js ''author''), JStr (js ''James Joyce'')),
                    ((js ''requesterEmail''), JStr (js ''not-an-email''))])"
  have f: "field (body ?r) (js ''requesterEmail'') = Some (JStr (js ''not-an-email''))" by code_simp
  have n: "\<not> matches emailRegex (js ''not-an-email'')" by code_simp
  have h: "\<forall>s. field (body ?r) (js ''requesterEmail'') = Some (JStr s) \<longrightarrow> \<not> matches emailRegex s"
    using f n by simp
  have t: "textOf (field (body ?r) (js ''title'')) \<noteq> NotText
          \<and> textOf (field (body ?r) (js ''author'')) \<noteq> NotText
          \<and> textOf (field (body ?r) (js ''requesterEmail'')) \<noteq> NotText"
    by code_simp
  from createBookRequest_rejects_bad_email[OF h, of U bookRequestSchema 7000
      "js ''64b7f0c2a1d3e4f5a6b7c8db''" sampleRequests] t
  show "snd (createBookRequest U bookRequestSchema 7000 (js ''64b7f0c2a1d3e4f5a6b7c8db'') ?r
            sampleRequests) = sampleRequests
      \<and> statusOf (fst (createBookRequest U bookRequestSchema 7000 (js ''64b7f0c2a1d3e4f5a6b7c8db'') ?r
            sampleRequests)) = Some 400"
    by blast
qed

subsection \<open>C8: upvotes\<close>

text \<open>
  Under the schema of the sources an upvote changes nothing of a stored request but
  \<^verbatim>\<open>updatedAt\<close>: the schema declares no path \<^verbatim>\<open>upvotes\<close>, so the \<^verbatim>\<open>$inc\<close> is dropped
  from the update.
\<close>

lemma upvote_only_stamps:
  assumes "map_of coll k = Some d"
  shows "\<exists>d'. map_of (snd (upvoteRequest bookRequestSchema now r coll)) k = Some d'
           \<and> (\<forall>f. f \<noteq> (js ''updatedAt'') \<longrightarrow> map_of d' f = map_of d f)"
proof -
  have "{(js ''upvotes''), (js ''updatedAt'')} \<inter> set (paths bookRequestSchema) \<subseteq> {(js ''updatedAt'')}"
    by (simp add: bookRequestSchema_def)
  from upvote_other_fields[OF assms this, of now r] show ?thesis by simp
qed

text \<open>
  C8 fails on the code. A visitor upvotes a stored request: the answer is 200 and the
  counter is where it was. The request holds no \<^verbatim>\<open>upvotes\<close> before the call and none
  after it, so no number of upvotes raises it.
\<close>

theorem upvote_does_not_count:
  "(case upvoteRequest bookRequestSchema 5000 (request None idDune [] (JObj [])) sampleRequests of
      (res, coll') \<Rightarrow>
        statusOf res = Some 200
        \<and> Option.bind (map_of sampleRequests idDune) (\<lambda>d. map_of d (js ''upvotes'')) = None
        \<and> Option.bind (map_of coll' idDune) (\<lambda>d. map_of d (js ''upvotes'')) = None)
   \<and> Option.bind
        (map_of (upvoteAll bookRequestSchema
                   [(5000, request None idDune [] (JObj [])),
                    (5001, request readerUser idDune [] (JObj [])),
                    (5002, request None idDune [] (JObj []))] sampleRequests) idDune)
        (\<lambda>d. map_of d (js ''upvotes'')) = None"
  by code_simp

subsection \<open>C9: the chat without an API key\<close>

text \<open>
  C9, as the code has it. With no API key configured, the chat on a message that is a
  string with a character other than white space calls no external service and answers
  200 with the reply that the keyword table gives for the trimmed message, one of the
  twelve canned replies; the answer is determined by the message alone. The table is
  read in order: a message that mentions none of the keywords of the earlier rules
  (find, search, book; how together with use or work; recommend, suggest; category,
  categories; request, not available; feature, what can) gets the greeting when it
  mentions hello, hi or hey, and the default reply otherwise.
\<close>

theorem chat_fallback_without_key:
  assumes key: "orElse (OPENAI_API_KEY env) [] = []"
      and msg: "field (body r) (js ''message'') = Some (JStr m)"
      and nonblank: "trim m \<noteq> []"
  shows "chatWithAI U env openai llm r
           = (Respond 200 (JObj [((js ''success''), JBool True),
                ((js ''response''), JStr (generateAIResponse U (trim m)))]), [])
       \<and> generateAIResponse U (trim m) \<in> set cannedReplies
       \<and> (\<not> mentions U (trim m) [(js ''find''), (js ''search''), (js ''book''), (js ''recommend''), (js ''suggest''),
              (js ''category''), (js ''categories''), (js ''request''), (js ''not available''), (js ''feature''), (js ''what can'')]
          \<and> \<not> (mentions U (trim m) [(js ''how'')] \<and> mentions U (trim m) [(js ''use''), (js ''work'')])
          \<longrightarrow> generateAIResponse U (trim m)
                = (if mentions U (trim m) [(js ''hello''), (js ''hi''), (js ''hey'')] then greetingReply
                   else defaultReply))"
proof -
  from nonblank have "m \<noteq> []" by (auto simp: trim_def)
  with key msg nonblank have a: "chatWithAI U env openai llm r
           = (Respond 200 (JObj [((js ''success''), JBool True),
                ((js ''response''), JStr (generateAIResponse U (trim m)))]), [])"
    by (simp add: chatWithAI_def)
  have b: "generateAIResponse U (trim m) \<in> set cannedReplies"
    unfolding generateAIResponse_def Let_def
    by (intro if_in) (simp_all add: cannedReplies_def)
  have c: "\<not> mentions U (trim m) [(js ''find''), (js ''search''), (js ''book''), (js ''recommend''), (js ''suggest''),
              (js ''category''), (js ''categories''), (js ''request''), (js ''not available''), (js ''feature''), (js ''what can'')]
          \<and> \<not> (mentions U (trim m) [(js ''how'')] \<and> mentions U (trim m) [(js ''use''), (js ''work'')])
          \<longrightarrow> generateAIResponse U (trim m)
                = (if mentions U (trim m) [(js ''hello''), (js ''hi''), (js ''hey'')] then greetingReply
                   else defaultReply)"
  proof
    define L where "L = toLowerCase U (trim m)"
    assume "\<not> mentions U (trim m) [(js ''find''), (js ''search''), (js ''book''), (js ''recommend''), (js ''suggest''),
              (js ''category''), (js ''categories''), (js ''request''), (js ''not available''), (js ''feature''), (js ''what can'')]
          \<and> \<not> (mentions U (trim m) [(js ''how'')] \<and> mentions U (trim m) [(js ''use''), (js ''work'')])"
    then have n: "\<not> includesStr L (js ''find'')" "\<not> includesStr L (js ''search'')" "\<not> includesStr L (js ''book'')"
      "\<not> includesStr L (js ''recommend'')" "\<not> includesStr L (js ''suggest'')" "\<not> includesStr L (js ''category'')"
      "\<not> includesStr L (js ''categories'')" "\<not> includesStr L (js ''request'')"
      "\<not> includesStr L (js ''not available'')" "\<not> includesStr L (js ''feature'')"
      "\<not> includesStr L (js ''what can'')"
      and h: "\<not> (includesStr L (js ''how'') \<and> (includesStr L (js ''use'') \<or> includesStr L (js ''work'')))"
      by (simp_all add: mentions_def L_def)
    have g: "generateAIResponse U (trim m)
        = (if includesStr L (js ''hello'') \<or> includesStr L (js ''hi'') \<or> includesStr L (js ''hey'')
           then greetingReply else defaultReply)"
      unfolding generateAIResponse_def Let_def L_def[symmetric]
      by (simp only: n h if_False simp_thms)
    show "generateAIResponse U (trim m)
                = (if mentions U (trim m) [(js ''hello''), (js ''hi''), (js ''hey'')] then greetingReply
                   else defaultReply)"
      unfolding g by (simp add: mentions_def L_def)
  qed
  from a b c show ?thesis by blast
qed

text \<open>
  C9 as stated fails at its example: a message that contains \<^verbatim>\<open>hello\<close> and also
  \<^verbatim>\<open>book\<close> gets the reply of the search rule, which stands first in the table, not the
  greeting. And a message of blanks, a string that is not empty, gets the answer 400
  and no reply.
\<close>

theorem chat_hello_book_counterexample:
  "\<forall>U. includesStr (toLowerCase U (js ''hello, is this book in stock?'')) (js ''hello'')
   \<and> chatWithAI U sampleEnv False (\<lambda>m. None)
        (request None [] [] (JObj [((js ''message''), JStr (js ''hello, is this book in stock?''))]))
      = (Respond 200 (JObj [((js ''success''), JBool True), ((js ''response''), JStr findReply)]), [])
   \<and> findReply \<noteq> greetingReply
   \<and> (js ''   '') \<noteq> []
   \<and> statusOf (fst (chatWithAI U sampleEnv False (\<lambda>m. None)
        (request None [] [] (JObj [((js ''message''), JStr (js ''   ''))])))) = Some 400"
  by (rule allI) code_simp

text \<open>
  C9, witness: with the sample environment (no key) and a service that would answer,
  \<^verbatim>\<open>Hello!\<close> gets the greeting and \<^verbatim>\<open>thanks\<close> the default reply, and nothing is sent.
\<close>

theorem chat_fallback_without_key_witness:
  "\<forall>U. chatWithAI U sampleEnv True (\<lambda>m. Some (js ''from the service''))
       (request None [] [] (JObj [((js ''message''), JStr (js ''  Hello!  ''))]))
     = (Respond 200 (JObj [((js ''success''), JBool True), ((js ''response''), JStr greetingReply)]), [])
   \<and> chatWithAI U sampleEnv True (\<lambda>m. Some (js ''from the service''))
       (request None [] [] (JObj [((js ''message''), JStr (js ''thanks''))]))
     = (Respond 200 (JObj [((js ''success''), JBool True), ((js ''response''), JStr defaultReply)]), [])"
proof
  fix U
  have k: "orElse (OPENAI_API_KEY sampleEnv) [] = []" by code_simp
  have m1: "field (body (request None [] [] (JObj [((js ''message''), JStr (js ''  Hello!  ''))]))) (js ''message'')
        = Some (JStr (js ''  Hello!  ''))" by code_simp
  have m2: "field (body (request None [] [] (JObj [((js ''message''), JStr (js ''thanks''))]))) (js ''message'')
        = Some (JStr (js ''thanks''))" by code_simp
  have n1: "trim (js ''  Hello!  '') \<noteq> []" by code_simp
  have n2: "trim (js ''thanks'') \<noteq> []" by code_simp
  have c1: "\<not> mentions U (trim (js ''  Hello!  '')) [(js ''find''), (js ''search''), (js ''book''), (js ''recommend''),
              (js ''suggest''), (js ''category''), (js ''categories''), (js ''request''), (js ''not available''),
              (js ''feature''), (js ''what can'')]
          \<and> \<not> (mentions U (trim (js ''  Hello!  '')) [(js ''how'')]
               \<and> mentions U (trim (js ''  Hello!  '')) [(js ''use''), (js ''work'')])"
    by code_simp
  have c2: "\<not> mentions U (trim (js ''thanks'')) [(js ''find''), (js ''search''), (js ''book''), (js ''recommend''),
              (js ''suggest''), (js ''category''), (js ''categories''), (js ''request''), (js ''not available''),
              (js ''feature''), (js ''what can'')]
          \<and> \<not> (mentions U (trim (js ''thanks'')) [(js ''how'')] \<and> mentions U (trim (js ''thanks'')) [(js ''use''), (js ''work'')])"
    by code_simp
  have g1: "mentions U (trim (js ''  Hello!  '')) [(js ''hello''), (js ''hi''), (js ''hey'')]" by code_simp
  have g2: "\<not> mentions U (trim (js ''thanks'')) [(js ''hello''), (js ''hi''), (js ''hey'')]" by code_simp
  note t1 = chat_fallback_without_key[OF k m1 n1, of U True "\<lambda>m. Some (js ''from the service'')"]
  note t2 = chat_fallback_without_key[OF k m2 n2, of U True "\<lambda>m. Some (js ''from the service'')"]
  from t1 c1 g1 have r1: "generateAIResponse U (trim (js ''  Hello!  '')) = greetingReply" by presburger
  from t2 c2 g2 have r2: "generateAIResponse U (trim (js ''thanks'')) = defaultReply" by presburger
  from t1 r1 t2 r2
  show "chatWithAI U sampleEnv True (\<lambda>m. Some (js ''from the service''))
       (request None [] [] (JObj [((js ''message''), JStr (js ''  Hello!  ''))]))
     = (Respond 200 (JObj [((js ''success''), JBool True), ((js ''response''), JStr greetingReply)]), [])
   \<and> chatWithAI U sampleEnv True (\<lambda>m. Some (js ''from the service''))
       (request None [] [] (JObj [((js ''message''), JStr (js ''thanks''))]))
     = (Respond 200 (JObj [((js ''success''), JBool True), ((js ''response''), JStr defaultReply)]), [])"
    by presburger
qed

subsection \<open>C10: the public listing and the admin notes\<close>

text \<open>
  C10 fails on the code. The listing drops the field \<^verbatim>\<open>adminNotes\<close> from each request it
  returns, but it sorts by the caller's \<^verbatim>\<open>sort\<close> parameter before that. Two collections
  that differ only in the admin notes of their two pending requests give different
  answers to \<^verbatim>\<open>GET /pending?sort=adminNotes&limit=1\<close>: each answer holds the request
  whose note comes first.
\<close>

theorem pending_listing_depends_on_adminNotes:
  "map (\<lambda>e. (fst e, AList.delete (js ''adminNotes'') (snd e))) sampleRequests
     = map (\<lambda>e. (fst e, AList.delete (js ''adminNotes'') (snd e))) sampleRequestsSwapped
   \<and> getPendingRequests
        (request None [] [((js ''sort''), (js ''adminNotes'')), ((js ''limit''), (js ''1''))] (JObj [])) sampleRequests
     \<noteq> getPendingRequests
        (request None [] [((js ''sort''), (js ''adminNotes'')), ((js ''limit''), (js ''1''))] (JObj []))
        sampleRequestsSwapped"
  by code_simp

subsection \<open>What the handlers do under a schema that declares the counter\<close>

text \<open>
  The upvote handler itself counts: under any schema that declares \<^verbatim>\<open>upvotes\<close> (and has
  no unique index, and casts the timestamp), one upvote of a stored request adds one to
  its counter and changes nothing else but \<^verbatim>\<open>updatedAt\<close>.
\<close>

lemma upvote_counts_when_declared:
  assumes decl: "(js ''upvotes'') \<in> set (paths S)"
      and uniq: "uniquePaths S = []"
      and cast: "castAt S (js ''updatedAt'') (JDate now) \<noteq> None"
      and i: "map_of (params r) (js ''id'') = Some i" "validObjectId i"
      and stored: "map_of coll (oid i) = Some d" "map_of d (js ''upvotes'') = Some (JNum n)"
  shows "\<exists>d'. map_of (snd (upvoteRequest S now r coll)) (oid i) = Some d'
           \<and> map_of d' (js ''upvotes'') = Some (JNum (n + 1))
           \<and> (\<forall>f. f \<notin> {(js ''upvotes''), (js ''updatedAt'')} \<longrightarrow> map_of d' f = map_of d f)"
proof -
  from cast obtain w where w: "castAt S (js ''updatedAt'') (JDate now) = Some w" by auto
  have up: "map_of (snd (upvoteRequest S now r coll)) (oid i)
              = Some (AList.update (js ''upvotes'') (JNum (n + 1))
                        (if timestamps S \<and> (js ''updatedAt'') \<in> set (paths S)
                         then AList.update (js ''updatedAt'') w d else d))"
    using decl uniq w i stored
    by (simp add: upvoteRequest_def findByIdAndUpdate_def Let_def uniqueOk_def update_conv'
        success_def)
  show ?thesis unfolding up by (simp add: update_conv')
qed

text \<open>And so a sequence of upvotes, by whatever callers, adds its length.\<close>

lemma upvotes_add_up_when_declared:
  assumes decl: "(js ''upvotes'') \<in> set (paths S)"
      and uniq: "uniquePaths S = []"
      and cast: "\<forall>t. castAt S (js ''updatedAt'') (JDate t) \<noteq> None"
      and valid: "validObjectId i"
  shows "(\<forall>c \<in> set calls. map_of (params (snd c)) (js ''id'') = Some i)
           \<Longrightarrow> map_of coll (oid i) = Some d \<Longrightarrow> map_of d (js ''upvotes'') = Some (JNum n)
           \<Longrightarrow> \<exists>d'. map_of (upvoteAll S calls coll) (oid i) = Some d'
                  \<and> map_of d' (js ''upvotes'') = Some (JNum (n + int (length calls)))
                  \<and> (\<forall>f. f \<notin> {(js ''upvotes''), (js ''updatedAt'')} \<longrightarrow> map_of d' f = map_of d f)"
proof (induction calls arbitrary: coll d n)
  case Nil
  then show ?case by simp
next
  case (Cons c calls)
  obtain now r where c: "c = (now, r)" by (cases c)
  from Cons.prems c have ir: "map_of (params r) (js ''id'') = Some i" by simp
  from cast have cw: "castAt S (js ''updatedAt'') (JDate now) \<noteq> None" by simp
  from upvote_counts_when_declared[OF decl uniq cw ir valid Cons.prems(2) Cons.prems(3)]
  obtain d1 where d1: "map_of (snd (upvoteRequest S now r coll)) (oid i) = Some d1"
      and n1: "map_of d1 (js ''upvotes'') = Some (JNum (n + 1))"
      and o1: "\<forall>f. f \<notin> {(js ''upvotes''), (js ''updatedAt'')} \<longrightarrow> map_of d1 f = map_of d f"
    by blast
  from Cons.prems have rest: "\<forall>c \<in> set calls. map_of (params (snd c)) (js ''id'') = Some i" by simp
  from Cons.IH[OF rest d1 n1]
  obtain d' where d': "map_of (upvoteAll S calls (snd (upvoteRequest S now r coll))) (oid i) = Some d'"
      and n': "map_of d' (js ''upvotes'') = Some (JNum (n + 1 + int (length calls)))"
      and o': "\<forall>f. f \<notin> {(js ''upvotes''), (js ''updatedAt'')} \<longrightarrow> map_of d' f = map_of d1 f"
    by blast
  from d' n' o' o1 c show ?case by (auto simp: algebra_simps)
qed

subsection \<open>What the public listing does keep from the reader\<close>

lemma docLeq_without_notes:
  "(js ''adminNotes'') \<notin> fst ` set ks \<Longrightarrow>
     docLeq ks (AList.delete (js ''adminNotes'') a) (AList.delete (js ''adminNotes'') b) = docLeq ks a b"
proof (induction ks)
  case Nil
  then show ?case by simp
next
  case (Cons k ks)
  obtain f asc where k: "k = (f, asc)" by (cases k)
  with Cons.prems have "f \<noteq> (js ''adminNotes'')" by auto
  with Cons k show ?case by (simp add: delete_conv' Let_def)
qed

lemma insertBy_map:
  "\<forall>a b. le (f a) (f b) = le a b \<Longrightarrow> map f (insertBy le x xs) = insertBy le (f x) (map f xs)"
  by (induction xs) simp_all

lemma sortBy_map:
  "\<forall>a b. le (f a) (f b) = le a b \<Longrightarrow> map f (sortBy le xs) = sortBy le (map f xs)"
  unfolding sortBy_def by (induction xs) (simp_all add: insertBy_map)

text \<open>
  Every request that the listing returns is without \<^verbatim>\<open>adminNotes\<close>; and when the sort
  parameter does not name \<^verbatim>\<open>adminNotes\<close> (the default \<^verbatim>\<open>-upvotes\<close> does not), two
  collections that differ only in admin notes get the same answer.
\<close>

lemma pending_listing_without_notes_in_sort:
  assumes same: "map (\<lambda>e. (fst e, AList.delete (js ''adminNotes'') (snd e))) c1
                   = map (\<lambda>e. (fst e, AList.delete (js ''adminNotes'') (snd e))) c2"
      and sort: "(js ''adminNotes'') \<notin> fst ` set (parseSort
                   (case queryParam r (js ''sort'') of None \<Rightarrow> (js ''-upvotes'') | Some s \<Rightarrow> s))"
  shows "getPendingRequests r c1 = getPendingRequests r c2"
proof -
  define strip :: "jstring \<times> doc \<Rightarrow> jstring \<times> doc"
    where "strip = (\<lambda>e. (fst e, AList.delete (js ''adminNotes'') (snd e)))"
  define P :: "jstring \<times> doc \<Rightarrow> bool"
    where "P = (\<lambda>e. map_of (snd e) (js ''status'') = Some (JStr (js ''pending'')))"
  define s where "s = (case queryParam r (js ''sort'') of None \<Rightarrow> (js ''-upvotes'') | Some s \<Rightarrow> s)"
  define le :: "jstring \<times> doc \<Rightarrow> jstring \<times> doc \<Rightarrow> bool"
    where "le = (\<lambda>a b. docLeq (parseSort s) (snd a) (snd b))"
  have Ps: "P (strip e) = P e" for e by (simp add: P_def strip_def delete_conv')
  have les: "le (strip a) (strip b) = le a b" for a b
    using sort by (simp add: le_def strip_def s_def docLeq_without_notes)
  have fm: "map strip (filter P c) = filter P (map strip c)" for c
    by (induction c) (simp_all add: Ps)
  have sd: "sortDocs s xs = sortBy le xs" for xs by (simp add: sortDocs_def le_def)
  have sm: "map strip (sortBy le xs) = sortBy le (map strip xs)" for xs
    using sortBy_map[of le strip xs] les by blast
  have page: "map strip (take l (drop k (sortDocs s (filter P c))))
                = take l (drop k (sortBy le (filter P (map strip c))))" for l k c
    by (simp only: sd fm[symmetric] sm[symmetric] drop_map take_map)
  have len: "length (filter P c) = length (filter P (map strip c))" for c
    using fm[of c] by (metis length_map)
  have g: "getPendingRequests r c =
     (case (pageNum (clampedPaging r), limitNum (clampedPaging r), skip (clampedPaging r)) of
           (Some p, Some l, Some k) \<Rightarrow>
             Respond 200 (JObj
                   [((js ''success''), JBool True),
                    ((js ''data''), JArr (map docJson
                        (take (nat l) (drop (nat k) (sortBy le (filter P (map strip c))))))),
                    ((js ''pagination''), JObj
                       [((js ''page''), JNum p), ((js ''limit''), JNum l),
                        ((js ''total''), JNum (int (length (filter P (map strip c))))),
                        ((js ''pages''), JNum (ceilDiv (int (length (filter P (map strip c)))) l))])])
         | _ \<Rightarrow> Next QueryError)" for c
    unfolding getPendingRequests_def Let_def s_def[symmetric] P_def[symmetric] strip_def[symmetric]
      page len[of c]
    by (rule refl)
  from same have "map strip c1 = map strip c2" by (simp add: strip_def)
  then show ?thesis by (simp only: g)
qed

subsection \<open>Strings beyond ASCII\<close>

text \<open>
  White space beyond ASCII is white space: a reason or a message of no-break spaces is
  blank, and is refused as a blank one is.
\<close>

lemma trim_beyond_ascii:
  "trim [0x00A0, 0x00A0] = []
   \<and> trim (0xFEFF # js '' out of print'' @ [0x2028, 0x3000]) = js ''out of print''"
  by code_simp

lemma reject_no_break_space:
  "statusOf (fst (rejectBookRequest U bookRequestSchema sampleEnv 5000
       (request adminUser idDune [] (JObj [(js ''adminNotes'', JStr [0x00A0, 0x00A0])]))
       sampleRequests)) = Some 400
   \<and> snd (rejectBookRequest U bookRequestSchema sampleEnv 5000
       (request adminUser idDune [] (JObj [(js ''adminNotes'', JStr [0x00A0, 0x00A0])]))
       sampleRequests) = sampleRequests"
  by code_simp

lemma chat_no_break_space:
  "statusOf (fst (chatWithAI U sampleEnv False (\<lambda>m. None)
       (request None [] [] (JObj [(js ''message'', JStr [0x00A0])])))) = Some 400"
  by code_simp

text \<open>
  The admin check and the keyword table follow the case tables. With the entry
  \<^verbatim>\<open>ECOLE@x.org\<close> configured, its first letter being U+00C9 (E with acute), and tables
  that give the same address in small letters (first letter U+00E9) for it and for
  that address itself, the address in small letters is an admin's. An entry that follows
  a no-break space is an admin's address. With tables that give \<^verbatim>\<open>book\<close> for \<^verbatim>\<open>BOO\<close>
  followed by the Kelvin sign U+212A, that message gets the reply of the search rule.
\<close>

lemma getAdminEmails_single:
  assumes "split 0x2C v = [v]" and "v \<noteq> []" and "toLowerCase U (trim v) \<noteq> []"
  shows "getAdminEmails U \<lparr>VITE_ADMIN_EMAILS = Some v, ADMIN_EMAILS = None, OPENAI_API_KEY = None\<rparr>
           = [toLowerCase U (trim v)]"
  using assms by (simp add: getAdminEmails_def adminEnv_def orElse_def)

lemma isAdminEmail_follows_tables:
  assumes "U (0x00C9 # js ''COLE@x.org'') = 0x00E9 # js ''cole@x.org''"
      and "U (0x00E9 # js ''cole@x.org'') = 0x00E9 # js ''cole@x.org''"
  shows "isAdminEmail U
           \<lparr>VITE_ADMIN_EMAILS = Some (0x00C9 # js ''COLE@x.org''), ADMIN_EMAILS = None,
            OPENAI_API_KEY = None\<rparr>
           (Some (0x00E9 # js ''cole@x.org''))"
proof -
  let ?E = "0x00C9 # js ''COLE@x.org''"
  let ?e = "0x00E9 # js ''cole@x.org''"
  have s: "split 0x2C ?E = [?E]" by code_simp
  have t: "trim ?E = ?E" by code_simp
  have n: "\<not> list_all isAscii ?E" "\<not> list_all isAscii ?e" by code_simp+
  have l: "toLowerCase U ?E = ?e" "toLowerCase U ?e = ?e"
    unfolding toLowerCase_def by (simp_all only: n if_False assms)
  have "toLowerCase U (trim ?E) \<noteq> []" unfolding t l by simp
  from getAdminEmails_single[OF s _ this]
  have g: "getAdminEmails U \<lparr>VITE_ADMIN_EMAILS = Some ?E, ADMIN_EMAILS = None,
            OPENAI_API_KEY = None\<rparr> = [?e]"
    unfolding t l by simp
  show ?thesis unfolding isAdminEmail_def g option.case l by simp
qed

lemma isAdminEmail_entry_after_no_break_space:
  "isAdminEmail U
     \<lparr>VITE_ADMIN_EMAILS = Some (js ''admin@easyreads.com,'' @ 0x00A0 # js ''second@x.org''),
      ADMIN_EMAILS = None, OPENAI_API_KEY = None\<rparr>
     (Some (js ''second@x.org''))"
  by code_simp

lemma generateAIResponse_follows_tables:
  assumes "U (js ''BOO'' @ [0x212A]) = js ''book''"
  shows "generateAIResponse U (js ''BOO'' @ [0x212A]) = findReply"
proof -
  have n: "\<not> list_all isAscii (js ''BOO'' @ [0x212A])" by code_simp
  have l: "toLowerCase U (js ''BOO'' @ [0x212A]) = js ''book''"
    unfolding toLowerCase_def by (simp only: n if_False assms)
  have i: "includesStr (js ''book'') (js ''book'')" "\<not> includesStr (js ''book'') (js ''fiction'')"
    "\<not> includesStr (js ''book'') (js ''science'')" "\<not> includesStr (js ''book'') (js ''ebook'')"
    "\<not> includesStr (js ''book'') (js ''e-book'')" "\<not> includesStr (js ''book'') (js ''audiobook'')"
    by code_simp+
  show ?thesis unfolding generateAIResponse_def l Let_def by (simp only: i simp_thms if_True if_False)
qed

end
